theory Spec2Isabelle
  imports Main "HOL-Library.AList"
begin

section \<open>Data model\<close>

text \<open>
  The timer of the repository lives in two places: the utilities of
  \<^verbatim>\<open>src/utils/localStorageUtils.ts\<close> (loading, validating and repairing the two
  records kept in \<^verbatim>\<open>localStorage\<close>) and the component \<^verbatim>\<open>PomodoroTimer\<close> of
  \<^verbatim>\<open>src/components/PomodoroTimer.tsx\<close> that keeps its state with React hooks
  (\<^verbatim>\<open>useState\<close>, \<^verbatim>\<open>useEffect\<close>, \<^verbatim>\<open>setInterval\<close>).

  Numbers are JavaScript numbers in the source; they are integers here (seconds, minutes,
  milliseconds since the epoch).
\<close>

subsection \<open>Stored JSON\<close>

text \<open>
  A value as \<^verbatim>\<open>JSON.parse\<close> returns it. An array is an object keyed by its indices:
  the functions below read and write named properties only. \<^verbatim>\<open>undefined\<close> is
  \<^verbatim>\<open>None\<close> of an option type.

  An item of \<^verbatim>\<open>localStorage\<close> is represented by what \<^verbatim>\<open>getItem\<close> followed by
  \<^verbatim>\<open>JSON.parse\<close> makes of it: no item (or the empty string, which every reader below
  treats the same way), a string that \<^verbatim>\<open>JSON.parse\<close> rejects with a SyntaxError, or
  the parsed value.
\<close>

datatype json = JNull | JBool bool | JNum int | JStr string | JObj "(string \<times> json) list"

datatype item = Missing | Unparseable | Parsed json

datatype js_error = TypeError

type_synonym jsval = "json option"

text \<open>
  \<^verbatim>\<open>x.k\<close>: a TypeError on \<^verbatim>\<open>null\<close> and \<^verbatim>\<open>undefined\<close>, the property of an object,
  \<^verbatim>\<open>undefined\<close> on a boolean, number or string.
\<close>

fun getProp :: "jsval \<Rightarrow> string \<Rightarrow> js_error + jsval" where
  "getProp None k = Inl TypeError"
| "getProp (Some JNull) k = Inl TypeError"
| "getProp (Some (JObj kvs)) k = Inr (map_of kvs k)"
| "getProp (Some v) k = Inr None"

text \<open>\<^verbatim>\<open>x?.k\<close>: as \<^verbatim>\<open>x.k\<close>, but \<^verbatim>\<open>undefined\<close> where \<^verbatim>\<open>x.k\<close> throws.\<close>

fun optProp :: "jsval \<Rightarrow> string \<Rightarrow> jsval" where
  "optProp (Some (JObj kvs)) k = map_of kvs k"
| "optProp v k = None"

fun truthy :: "jsval \<Rightarrow> bool" where
  "truthy None = False"
| "truthy (Some JNull) = False"
| "truthy (Some (JBool b)) = b"
| "truthy (Some (JNum n)) = (n \<noteq> 0)"
| "truthy (Some (JStr s)) = (s \<noteq> [])"
| "truthy (Some (JObj kvs)) = True"

text \<open>
  \<^verbatim>\<open>x.k = v\<close> in a module (strict mode): a TypeError unless \<^verbatim>\<open>x\<close> is an object. The
  source mutates the parsed tree in place; the model returns the updated object.
\<close>

fun setProp :: "jsval \<Rightarrow> string \<Rightarrow> json \<Rightarrow> js_error + json" where
  "setProp (Some (JObj kvs)) k v = Inr (JObj (AList.update k v kvs))"
| "setProp x k v = Inl TypeError"

text \<open>\<^verbatim>\<open>x || d\<close> with a default \<^verbatim>\<open>d\<close>.\<close>

fun orElse :: "jsval \<Rightarrow> json \<Rightarrow> json" where
  "orElse None d = d"
| "orElse (Some v) d = (if truthy (Some v) then v else d)"

subsection \<open>Settings\<close>

text \<open>
  The interface \<^verbatim>\<open>Settings\<close> as the timer reads it: the three durations in minutes
  (\<^verbatim>\<open>settings.timerDurations\<close>) and \<^verbatim>\<open>longBreakInterval\<close>. The other fields (sound,
  dark mode, auto-start) are not read by any function modelled here.
\<close>

record Settings =
  pomodoro :: int
  shortBreak :: int
  longBreak :: int
  longBreakInterval :: int

section \<open>localStorageUtils.ts\<close>

subsection \<open>getSettings\<close>

text \<open>
  \<^verbatim>\<open>DEFAULT_SETTINGS\<close>; its \<^verbatim>\<open>lastUpdated\<close> is \<^verbatim>\<open>Date.now()\<close> at the time the
  module was loaded.
\<close>

definition DEFAULT_SETTINGS :: "int \<Rightarrow> json" where
  "DEFAULT_SETTINGS loadedAt = JObj
     [(''timerDurations'', JObj [(''pomodoro'', JNum 25), (''shortBreak'', JNum 5), (''longBreak'', JNum 15)]),
      (''longBreakInterval'', JNum 4),
      (''autoStartBreaks'', JBool False),
      (''autoStartPomodoros'', JBool False),
      (''darkMode'', JBool True),
      (''sound'', JObj [(''alarmSound'', JStr ''kitty''), (''alarmVolume'', JNum 80), (''alarmRepeat'', JNum 1),
                       (''tickingSound'', JStr ''none''), (''tickingVolume'', JNum 50)]),
      (''lastUpdated'', JNum loadedAt)]"

text \<open>The object literal that \<^verbatim>\<open>getSettings\<close> returns for a record that passed the check.\<close>

definition withDefaults :: "int \<Rightarrow> json \<Rightarrow> json" where
  "withDefaults now savedSettings =
     (let td = optProp (Some savedSettings) ''timerDurations'';
          sound = optProp (Some savedSettings) ''sound''
      in JObj
       [(''timerDurations'', JObj
           [(''pomodoro'', orElse (optProp td ''pomodoro'') (JNum 25)),
            (''shortBreak'', orElse (optProp td ''shortBreak'') (JNum 5)),
            (''longBreak'', orElse (optProp td ''longBreak'') (JNum 15))]),
        (''longBreakInterval'', orElse (optProp (Some savedSettings) ''longBreakInterval'') (JNum 4)),
        (''autoStartBreaks'', orElse (optProp (Some savedSettings) ''autoStartBreaks'') (JBool False)),
        (''autoStartPomodoros'', orElse (optProp (Some savedSettings) ''autoStartPomodoros'') (JBool False)),
        (''darkMode'', (case optProp (Some savedSettings) ''darkMode'' of None \<Rightarrow> JBool True | Some d \<Rightarrow> d)),
        (''sound'', JObj
           [(''alarmSound'', orElse (optProp sound ''alarmSound'') (JStr ''kitty'')),
            (''alarmVolume'', orElse (optProp sound ''alarmVolume'') (JNum 80)),
            (''alarmRepeat'', orElse (optProp sound ''alarmRepeat'') (JNum 1)),
            (''tickingSound'', orElse (optProp sound ''tickingSound'') (JStr ''none'')),
            (''tickingVolume'', orElse (optProp sound ''tickingVolume'') (JNum 50))]),
        (''lastUpdated'', orElse (optProp (Some savedSettings) ''lastUpdated'') (JNum now))])"

text \<open>
  The body of the \<^verbatim>\<open>try\<close> block after \<^verbatim>\<open>JSON.parse\<close>: only the pomodoro duration is
  checked (a number from 1 to 60).
\<close>

definition getSettings_try :: "int \<Rightarrow> int \<Rightarrow> json \<Rightarrow> js_error + json" where
  "getSettings_try loadedAt now savedSettings =
     (case getProp (Some savedSettings) ''timerDurations'' of
        Inl e \<Rightarrow> Inl e
      | Inr td \<Rightarrow>
          if \<not> truthy td then Inr (DEFAULT_SETTINGS loadedAt)
          else (case getProp td ''pomodoro'' of
                  Inl e \<Rightarrow> Inl e
                | Inr (Some (JNum n)) \<Rightarrow>
                    if n < 1 \<or> n > 60 then Inr (DEFAULT_SETTINGS loadedAt)
                    else Inr (withDefaults now savedSettings)
                | Inr other \<Rightarrow> Inr (DEFAULT_SETTINGS loadedAt)))"

text \<open>\<^verbatim>\<open>getSettings\<close>: the \<^verbatim>\<open>catch\<close> turns every exception into the defaults.\<close>

definition getSettings :: "int \<Rightarrow> int \<Rightarrow> item \<Rightarrow> json" where
  "getSettings loadedAt now stored =
     (case stored of
        Missing \<Rightarrow> DEFAULT_SETTINGS loadedAt
      | Unparseable \<Rightarrow> DEFAULT_SETTINGS loadedAt
      | Parsed savedSettings \<Rightarrow>
          (case getSettings_try loadedAt now savedSettings of
             Inl e \<Rightarrow> DEFAULT_SETTINGS loadedAt
           | Inr r \<Rightarrow> r))"

subsection \<open>createFreshTimerState and getTimerState\<close>

definition freshSlot :: "int \<Rightarrow> json" where
  "freshSlot t = JObj [(''timeRemaining'', JNum t), (''isActive'', JBool False)]"

definition freshSlots :: "Settings \<Rightarrow> json" where
  "freshSlots settings = JObj
     [(''pomodoro'', freshSlot (pomodoro settings * 60)),
      (''shortBreak'', freshSlot (shortBreak settings * 60)),
      (''longBreak'', freshSlot (longBreak settings * 60))]"

definition createFreshTimerState :: "string \<Rightarrow> Settings \<Rightarrow> json" where
  "createFreshTimerState currentMode settings =
     (let pomodoroTime = pomodoro settings * 60;
          shortBreakTime = shortBreak settings * 60;
          longBreakTime = longBreak settings * 60;
          currentTime = (if currentMode = ''longBreak'' then longBreakTime
                         else if currentMode = ''shortBreak'' then shortBreakTime
                         else pomodoroTime)
      in JObj
       [(''timeRemaining'', JNum currentTime),
        (''isActive'', JBool False),
        (''completedPomodoros'', JNum 0),
        (''timerMode'', JStr currentMode),
        (''originalDuration'', JNum currentTime),
        (''timerStates'', freshSlots settings),
        (''settingsChanged'', JBool False)])"

text \<open>
  One of the three statements
  \<^verbatim>\<open>if (!parsedState.timerStates.K.isActive) parsedState.timerStates.K.timeRemaining = T\<close>,
  on the value of \<^verbatim>\<open>parsedState.timerStates\<close>.
\<close>

definition resetIfInactive :: "jsval \<Rightarrow> string \<Rightarrow> int \<Rightarrow> js_error + jsval" where
  "resetIfInactive timerStates kind correctTime =
     (case getProp timerStates kind of
        Inl e \<Rightarrow> Inl e
      | Inr slot \<Rightarrow>
          (case getProp slot ''isActive'' of
             Inl e \<Rightarrow> Inl e
           | Inr active \<Rightarrow>
               if \<not> truthy active then
                 (case setProp slot ''timeRemaining'' (JNum correctTime) of
                    Inl e \<Rightarrow> Inl e
                  | Inr slot' \<Rightarrow>
                      (case setProp timerStates kind slot' of
                         Inl e \<Rightarrow> Inl e
                       | Inr timerStates' \<Rightarrow> Inr (Some timerStates')))
               else Inr timerStates))"

text \<open>The body of the \<^verbatim>\<open>try\<close> block of \<^verbatim>\<open>getTimerState\<close> after \<^verbatim>\<open>JSON.parse\<close>.\<close>

definition getTimerState_try :: "string \<Rightarrow> Settings \<Rightarrow> json \<Rightarrow> js_error + json" where
  "getTimerState_try currentMode settings parsedState =
     (let correctPomodoroTime = pomodoro settings * 60;
          correctShortBreakTime = shortBreak settings * 60;
          correctLongBreakTime = longBreak settings * 60
      in case (if currentMode = ''pomodoro''
               then (case getProp (Some parsedState) ''isActive'' of
                       Inl e \<Rightarrow> Inl e
                     | Inr active \<Rightarrow>
                         if \<not> truthy active
                         then setProp (Some parsedState) ''timeRemaining'' (JNum correctPomodoroTime)
                         else Inr parsedState)
               else Inr parsedState) of
           Inl e \<Rightarrow> Inl e
         | Inr st1 \<Rightarrow>
            (case getProp (Some st1) ''timerStates'' of
               Inl e \<Rightarrow> Inl e
             | Inr ts \<Rightarrow>
                 if \<not> truthy ts then setProp (Some st1) ''timerStates'' (freshSlots settings)
                 else (case resetIfInactive ts ''pomodoro'' correctPomodoroTime of
                         Inl e \<Rightarrow> Inl e
                       | Inr ts1 \<Rightarrow>
                          (case resetIfInactive ts1 ''shortBreak'' correctShortBreakTime of
                             Inl e \<Rightarrow> Inl e
                           | Inr ts2 \<Rightarrow>
                              (case resetIfInactive ts2 ''longBreak'' correctLongBreakTime of
                                 Inl e \<Rightarrow> Inl e
                               | Inr None \<Rightarrow> Inl TypeError
                               | Inr (Some ts3) \<Rightarrow> setProp (Some st1) ''timerStates'' ts3)))))"

definition getTimerState :: "string \<Rightarrow> Settings \<Rightarrow> item \<Rightarrow> json" where
  "getTimerState currentMode settings stored =
     (case stored of
        Missing \<Rightarrow> createFreshTimerState currentMode settings
      | Unparseable \<Rightarrow> createFreshTimerState currentMode settings
      | Parsed parsedState \<Rightarrow>
          (case getTimerState_try currentMode settings parsedState of
             Inl e \<Rightarrow> createFreshTimerState currentMode settings
           | Inr r \<Rightarrow> r))"

subsection \<open>fixHardcodedPomodoroTime\<close>

text \<open>\<^verbatim>\<open>parsedState.timerStates.pomodoro.timeRemaining = v\<close>.\<close>

definition setPomodoroRemaining :: "json \<Rightarrow> int \<Rightarrow> js_error + json" where
  "setPomodoroRemaining parsedState v =
     (case getProp (Some parsedState) ''timerStates'' of
        Inl e \<Rightarrow> Inl e
      | Inr ts \<Rightarrow>
         (case getProp ts ''pomodoro'' of
            Inl e \<Rightarrow> Inl e
          | Inr pom \<Rightarrow>
             (case setProp pom ''timeRemaining'' (JNum v) of
                Inl e \<Rightarrow> Inl e
              | Inr pom' \<Rightarrow>
                 (case setProp ts ''pomodoro'' pom' of
                    Inl e \<Rightarrow> Inl e
                  | Inr ts' \<Rightarrow> setProp (Some parsedState) ''timerStates'' ts'))))"

text \<open>
  The second and third check, on the field \<^verbatim>\<open>timeRemaining\<close> and on \<^verbatim>\<open>originalDuration\<close>:
  \<^verbatim>\<open>if (parsedState.timerMode === 'pomodoro' && parsedState.F === 900) { parsedState.F = 1500;
  foundHardcodedValue = true }\<close>.
\<close>

definition fixTopLevel :: "string \<Rightarrow> json \<times> bool \<Rightarrow> js_error + json \<times> bool" where
  "fixTopLevel field = (\<lambda>(parsedState, found).
     (case getProp (Some parsedState) ''timerMode'' of
        Inl e \<Rightarrow> Inl e
      | Inr m \<Rightarrow>
         if m = Some (JStr ''pomodoro'') then
           (case getProp (Some parsedState) field of
              Inl e \<Rightarrow> Inl e
            | Inr v \<Rightarrow>
               if v = Some (JNum 900)
               then (case setProp (Some parsedState) field (JNum 1500) of
                       Inl e \<Rightarrow> Inl e
                     | Inr fixed \<Rightarrow> Inr (fixed, True))
               else Inr (parsedState, found))
         else Inr (parsedState, found)))"

definition fixHardcoded_try :: "json \<Rightarrow> js_error + json \<times> bool" where
  "fixHardcoded_try parsedState =
     (case getProp (Some parsedState) ''timerStates'' of
        Inl e \<Rightarrow> Inl e
      | Inr ts \<Rightarrow>
         (case (if optProp (optProp ts ''pomodoro'') ''timeRemaining'' = Some (JNum 900)
                then (case setPomodoroRemaining parsedState 1500 of
                        Inl e \<Rightarrow> Inl e
                      | Inr fixed \<Rightarrow> Inr (fixed, True))
                else Inr (parsedState, False)) of
            Inl e \<Rightarrow> Inl e
          | Inr r1 \<Rightarrow>
             (case fixTopLevel ''timeRemaining'' r1 of
                Inl e \<Rightarrow> Inl e
              | Inr r2 \<Rightarrow> fixTopLevel ''originalDuration'' r2)))"

text \<open>
  \<^verbatim>\<open>fixHardcodedPomodoroTime\<close> returns the item as it leaves it in \<^verbatim>\<open>localStorage\<close>
  and its boolean result.
\<close>

definition fixHardcodedPomodoroTime :: "item \<Rightarrow> item \<times> bool" where
  "fixHardcodedPomodoroTime stored =
     (case stored of
        Missing \<Rightarrow> (stored, False)
      | Unparseable \<Rightarrow> (stored, False)
      | Parsed parsedState \<Rightarrow>
         (case fixHardcoded_try parsedState of
            Inl e \<Rightarrow> (stored, False)
          | Inr (fixed, foundHardcodedValue) \<Rightarrow>
             if foundHardcodedValue then (Parsed fixed, True) else (stored, False)))"

text \<open>Reading a slot's field and a configured duration out of a returned record.\<close>

abbreviation slotField :: "json \<Rightarrow> string \<Rightarrow> string \<Rightarrow> jsval" where
  "slotField st kind field \<equiv> optProp (optProp (optProp (Some st) ''timerStates'') kind) field"

abbreviation inactiveFull :: "json \<Rightarrow> string \<Rightarrow> int \<Rightarrow> bool" where
  "inactiveFull st kind full \<equiv>
     (\<not> truthy (slotField st kind ''isActive'') \<longrightarrow> slotField st kind ''timeRemaining'' = Some (JNum full))"

text \<open>
  The three comparisons of \<^verbatim>\<open>fixHardcodedPomodoroTime\<close> on a parsed record, and the
  rewrite of a value that is exactly 900.
\<close>

definition has900 :: "json \<Rightarrow> bool" where
  "has900 p \<longleftrightarrow>
     slotField p ''pomodoro'' ''timeRemaining'' = Some (JNum 900)
     \<or> (optProp (Some p) ''timerMode'' = Some (JStr ''pomodoro'')
         \<and> (optProp (Some p) ''timeRemaining'' = Some (JNum 900)
            \<or> optProp (Some p) ''originalDuration'' = Some (JNum 900)))"

definition to1500 :: "bool \<Rightarrow> jsval \<Rightarrow> jsval" where
  "to1500 applies v = (if applies \<and> v = Some (JNum 900) then Some (JNum 1500) else v)"

abbreviation duration :: "json \<Rightarrow> string \<Rightarrow> jsval" where
  "duration st kind \<equiv> optProp (optProp (Some st) ''timerDurations'') kind"

section \<open>PomodoroTimer.tsx: the component that keeps its own state\<close>

text \<open>
  The component of \<^verbatim>\<open>src/components/PomodoroTimer.tsx\<close> whose state is
  \<^verbatim>\<open>timeRemaining\<close>, \<^verbatim>\<open>isActive\<close>, \<^verbatim>\<open>completedPomodoros\<close> and \<^verbatim>\<open>timerStates\<close>
  (\<^verbatim>\<open>useState\<close>), with the interval handle in \<^verbatim>\<open>intervalRef\<close> and five effects. Its
  prop \<^verbatim>\<open>timerMode\<close> is state of the parent \<^verbatim>\<open>App\<close>, changed through \<^verbatim>\<open>setTimerMode\<close>.

  The record it persists under \<^verbatim>\<open>pomoSpaceTimerState\<close> is taken here at the type the source
  gives it (\<^verbatim>\<open>JSON.parse(savedState) as TimerState\<close>); an item that does not parse is
  \<open>Corrupt\<close>. A timer mode is a string, and \<^verbatim>\<open>timerStates\<close> an object indexed by it.
\<close>

record slot =
  slot_timeRemaining :: int
  slot_isActive :: bool

type_synonym timerStates = "string \<Rightarrow> slot option"

record TimerState =
  ts_timeRemaining :: int
  ts_isActive :: bool
  ts_completedPomodoros :: int
  ts_activeTimestamp :: "int option"
  ts_timerMode :: string
  ts_originalDuration :: "int option"
  ts_timerStates :: "timerStates option"

datatype stored = NoItem | Corrupt | Saved TimerState

text \<open>\<^verbatim>\<open>getDuration\<close>, with its \<^verbatim>\<open>default\<close> case.\<close>

definition getDuration :: "string \<Rightarrow> Settings \<Rightarrow> int" where
  "getDuration mode settings =
     (if mode = ''pomodoro'' then pomodoro settings * 60
      else if mode = ''shortBreak'' then shortBreak settings * 60
      else if mode = ''longBreak'' then longBreak settings * 60
      else pomodoro settings * 60)"

text \<open>
  What the callback handed to \<^verbatim>\<open>setInterval\<close> captures from the render that created it.
\<close>

record closure =
  c_timerMode :: string
  c_completedPomodoros :: int
  c_settings :: Settings
  c_timerStates :: timerStates

text \<open>
  The statements with an effect outside the function that runs them, in the order they run:
  the state setters (queued by React and applied together before the next render), the parent's
  \<^verbatim>\<open>setTimerMode\<close> called at once or from a \<^verbatim>\<open>setTimeout\<close>, the callback
  \<^verbatim>\<open>onPomodoroComplete\<close>, the alarm, the interval handle and \<^verbatim>\<open>updateTimerState\<close>.
\<close>

datatype action =
    SetTimeRemaining int
  | SetIsActive bool
  | SetCompletedPomodoros int
  | SetTimerStates timerStates
  | SetTimerMode string
  | SetTimerModeLater string
  | OnPomodoroComplete
  | PlayAlarmSound
  | ClearInterval
  | SetIntervalIfNone closure
  | UpdateTimerState string int bool int timerStates

subsection \<open>getSavedTimerState\<close>

definition freshTimerStates :: "Settings \<Rightarrow> timerStates" where
  "freshTimerStates settings =
     [''pomodoro'' \<mapsto> \<lparr>slot_timeRemaining = getDuration ''pomodoro'' settings, slot_isActive = False\<rparr>,
      ''shortBreak'' \<mapsto> \<lparr>slot_timeRemaining = getDuration ''shortBreak'' settings, slot_isActive = False\<rparr>,
      ''longBreak'' \<mapsto> \<lparr>slot_timeRemaining = getDuration ''longBreak'' settings, slot_isActive = False\<rparr>]"

definition defaultTimerState :: "string \<Rightarrow> Settings \<Rightarrow> TimerState" where
  "defaultTimerState timerMode settings =
     \<lparr>ts_timeRemaining = getDuration timerMode settings, ts_isActive = False, ts_completedPomodoros = 0,
      ts_activeTimestamp = None, ts_timerMode = timerMode, ts_originalDuration = None,
      ts_timerStates = Some (freshTimerStates settings)\<rparr>"

definition initTimerStates :: "Settings \<Rightarrow> TimerState \<Rightarrow> timerStates" where
  "initTimerStates settings parsedState =
     (case ts_timerStates parsedState of
        Some m \<Rightarrow> m
      | None \<Rightarrow>
         [''pomodoro'' \<mapsto> \<lparr>slot_timeRemaining = getDuration ''pomodoro'' settings,
              slot_isActive = (if ts_timerMode parsedState = ''pomodoro'' then ts_isActive parsedState else False)\<rparr>,
          ''shortBreak'' \<mapsto> \<lparr>slot_timeRemaining = getDuration ''shortBreak'' settings,
              slot_isActive = (if ts_timerMode parsedState = ''shortBreak'' then ts_isActive parsedState else False)\<rparr>,
          ''longBreak'' \<mapsto> \<lparr>slot_timeRemaining = getDuration ''longBreak'' settings,
              slot_isActive = (if ts_timerMode parsedState = ''longBreak'' then ts_isActive parsedState else False)\<rparr>])"

text \<open>
  The next mode after a completion, as computed in \<^verbatim>\<open>getSavedTimerState\<close> and again in the
  interval callback. \<^verbatim>\<open>n % 0\<close> is \<^verbatim>\<open>NaN\<close>, never \<^verbatim>\<open>=== 0\<close>.
\<close>

definition nextModeAfter :: "string \<Rightarrow> int \<Rightarrow> Settings \<Rightarrow> string" where
  "nextModeAfter mode completed settings =
     (if mode = ''pomodoro''
      then (let newCompletedCount = completed + 1
            in if longBreakInterval settings \<noteq> 0 \<and> newCompletedCount mod longBreakInterval settings = 0
               then ''longBreak'' else ''shortBreak'')
      else ''pomodoro'')"

text \<open>
  \<^verbatim>\<open>getSavedTimerState\<close> at time \<open>now\<close>, returning the state and the side effects it had
  (\<^verbatim>\<open>onPomodoroComplete()\<close>, \<^verbatim>\<open>setTimeout(() => setTimerMode(newMode, false), 0)\<close>).
  Writing \<^verbatim>\<open>timeRemaining\<close> into a slot that does not exist throws a TypeError, which the
  \<^verbatim>\<open>catch\<close> turns into the default state.
\<close>

definition getSavedTimerState :: "string \<Rightarrow> Settings \<Rightarrow> int \<Rightarrow> stored \<Rightarrow> TimerState \<times> action list" where
  "getSavedTimerState timerMode settings now st =
     (case st of
        NoItem \<Rightarrow> (defaultTimerState timerMode settings, [])
      | Corrupt \<Rightarrow> (defaultTimerState timerMode settings, [])
      | Saved parsedState \<Rightarrow>
         (let ts0 = initTimerStates settings parsedState in
          case (if ts_isActive parsedState then ts_activeTimestamp parsedState else None) of
            None \<Rightarrow> (parsedState\<lparr>ts_timerStates := Some ts0\<rparr>, [])
          | Some stamp \<Rightarrow>
             if stamp = 0 then (parsedState\<lparr>ts_timerStates := Some ts0\<rparr>, [])
             else
              (let elapsedSeconds = (now - stamp) div 1000;
                   newTimeRemaining = max 0 (ts_timeRemaining parsedState - elapsedSeconds)
               in case ts0 (ts_timerMode parsedState) of
                    None \<Rightarrow> (defaultTimerState timerMode settings, [])
                  | Some active \<Rightarrow>
                     (let ts1 = ts0(ts_timerMode parsedState \<mapsto> active\<lparr>slot_timeRemaining := newTimeRemaining\<rparr>)
                      in if newTimeRemaining \<le> 0 then
                           (let newMode = nextModeAfter (ts_timerMode parsedState)
                                            (ts_completedPomodoros parsedState) settings;
                                newCompletedPomodoros =
                                  (if ts_timerMode parsedState = ''pomodoro''
                                   then ts_completedPomodoros parsedState + 1
                                   else ts_completedPomodoros parsedState);
                                ts2 = ts1(ts_timerMode parsedState \<mapsto>
                                        \<lparr>slot_timeRemaining = getDuration (ts_timerMode parsedState) settings,
                                         slot_isActive = False\<rparr>)
                            in (\<lparr>ts_timeRemaining = getDuration newMode settings, ts_isActive = False,
                                 ts_completedPomodoros = newCompletedPomodoros, ts_activeTimestamp = None,
                                 ts_timerMode = newMode, ts_originalDuration = None,
                                 ts_timerStates = Some ts2\<rparr>,
                                (if ts_timerMode parsedState = ''pomodoro'' then [OnPomodoroComplete] else [])
                                @ (if timerMode \<noteq> newMode then [SetTimerModeLater newMode] else [])))
                         else (parsedState\<lparr>ts_timeRemaining := newTimeRemaining,
                                 ts_activeTimestamp := Some now, ts_timerStates := Some ts1\<rparr>, [])))))"

subsection \<open>The component's state\<close>

text \<open>
  The state of one mounted component and of what it touches: the values a render sees
  (\<open>timerMode\<close> and \<open>settings\<close> from the parent, the four \<^verbatim>\<open>useState\<close> values),
  \<^verbatim>\<open>intervalRef.current\<close> with the time the interval is next due and what its callback
  captured, the stored item, the \<^verbatim>\<open>setTimerMode\<close> calls waiting in a \<^verbatim>\<open>setTimeout\<close>,
  and counters of the calls of \<^verbatim>\<open>onPomodoroComplete\<close> and of the alarm since the page
  was loaded.
\<close>

record comp =
  timerMode :: string
  settings :: Settings
  timeRemaining :: int
  isActive :: bool
  completedPomodoros :: int
  timerStates :: timerStates
  interval :: "(int \<times> closure) option"
  storage :: stored
  later :: "string list"
  notified :: nat
  alarms :: nat

text \<open>
  \<^verbatim>\<open>updateTimerState\<close>: when the stored item does not parse, \<^verbatim>\<open>JSON.parse\<close> throws
  inside the \<^verbatim>\<open>try\<close> and nothing is written.
\<close>

definition updateTimerState :: "int \<Rightarrow> string \<Rightarrow> int \<Rightarrow> bool \<Rightarrow> int \<Rightarrow> timerStates \<Rightarrow> comp \<Rightarrow> comp" where
  "updateTimerState now currentTimerMode tr active completed allTimerStates c =
     (case storage c of
        Corrupt \<Rightarrow> c
      | other \<Rightarrow>
         (let existing = (case other of Saved parsedState \<Rightarrow> ts_originalDuration parsedState | _ \<Rightarrow> None);
              originalDuration = (case existing of
                                    Some d \<Rightarrow> if d = 0 then getDuration currentTimerMode (settings c) else d
                                  | None \<Rightarrow> getDuration currentTimerMode (settings c))
          in c\<lparr>storage := Saved
               \<lparr>ts_timeRemaining = tr, ts_isActive = active, ts_completedPomodoros = completed,
                ts_activeTimestamp = (if active then Some now else None),
                ts_timerMode = currentTimerMode, ts_originalDuration = Some originalDuration,
                ts_timerStates = Some allTimerStates\<rparr>\<rparr>))"

text \<open>
  Running an action at time \<open>now\<close>. A state setter writes the value the next render will see;
  \<^verbatim>\<open>setInterval\<close> is only reached where the source has checked that
  \<^verbatim>\<open>intervalRef.current\<close> is null.
\<close>

fun applyAction :: "int \<Rightarrow> comp \<Rightarrow> action \<Rightarrow> comp" where
  "applyAction now c (SetTimeRemaining t) = c\<lparr>timeRemaining := t\<rparr>"
| "applyAction now c (SetIsActive b) = c\<lparr>isActive := b\<rparr>"
| "applyAction now c (SetCompletedPomodoros n) = c\<lparr>completedPomodoros := n\<rparr>"
| "applyAction now c (SetTimerStates m) = c\<lparr>timerStates := m\<rparr>"
| "applyAction now c (SetTimerMode m) = c\<lparr>timerMode := m\<rparr>"
| "applyAction now c (SetTimerModeLater m) = c\<lparr>later := later c @ [m]\<rparr>"
| "applyAction now c OnPomodoroComplete = c\<lparr>notified := Suc (notified c)\<rparr>"
| "applyAction now c PlayAlarmSound = c\<lparr>alarms := Suc (alarms c)\<rparr>"
| "applyAction now c ClearInterval = c\<lparr>interval := None\<rparr>"
| "applyAction now c (SetIntervalIfNone cl) =
     (case interval c of None \<Rightarrow> c\<lparr>interval := Some (now + 1000, cl)\<rparr> | Some i \<Rightarrow> c)"
| "applyAction now c (UpdateTimerState m t a n ts) = updateTimerState now m t a n ts c"

definition perform :: "int \<Rightarrow> action list \<Rightarrow> comp \<Rightarrow> comp" where
  "perform now acts c = foldl (applyAction now) c acts"

fun isSetTimerStates :: "action \<Rightarrow> bool" where
  "isSetTimerStates (SetTimerStates m) = True"
| "isSetTimerStates a = False"

subsection \<open>The five effects\<close>

text \<open>
  Each effect is a function of the values of the render that scheduled it (the record \<open>v\<close>).

  The effect with dependencies \<^verbatim>\<open>[timeRemaining, isActive, completedPomodoros, timerMode,
  timerStates]\<close>: it saves to \<^verbatim>\<open>localStorage\<close> only, the state \<^verbatim>\<open>timerStates\<close> is not set.
\<close>

definition saveWhileActive :: "comp \<Rightarrow> action list" where
  "saveWhileActive v =
     (if isActive v
      then [UpdateTimerState (timerMode v) (timeRemaining v) (isActive v) (completedPomodoros v)
              ((timerStates v)(timerMode v \<mapsto>
                  \<lparr>slot_timeRemaining = timeRemaining v, slot_isActive = isActive v\<rparr>))]
      else [])"

text \<open>The effect with dependency \<^verbatim>\<open>[isActive]\<close>.\<close>

definition saveOnActiveChange :: "comp \<Rightarrow> action list" where
  "saveOnActiveChange v =
     (let updatedTimerStates = (timerStates v)(timerMode v \<mapsto>
             \<lparr>slot_timeRemaining = timeRemaining v, slot_isActive = isActive v\<rparr>)
      in [SetTimerStates updatedTimerStates,
          UpdateTimerState (timerMode v) (timeRemaining v) (isActive v) (completedPomodoros v)
            updatedTimerStates])"

text \<open>
  The effect with dependency \<^verbatim>\<open>[timerMode]\<close>. \<^verbatim>\<open>timeRemaining\<close> in its call of
  \<^verbatim>\<open>updateTimerState\<close> is the value of the render, that of the mode just left.
\<close>

definition onTimerModeChange :: "comp \<Rightarrow> action list" where
  "onTimerModeChange v =
     (let timerState = timerStates v (timerMode v);
          updatedTimerStates = (timerStates v)(timerMode v \<mapsto>
             \<lparr>slot_timeRemaining =
                (case timerState of
                   Some s \<Rightarrow> if slot_timeRemaining s \<noteq> 0 then slot_timeRemaining s
                             else getDuration (timerMode v) (settings v)
                 | None \<Rightarrow> getDuration (timerMode v) (settings v)),
              slot_isActive = False\<rparr>)
      in [ClearInterval]
         @ (case timerState of
              Some s \<Rightarrow> [SetTimeRemaining (slot_timeRemaining s), SetIsActive False]
            | None \<Rightarrow> [SetTimeRemaining (getDuration (timerMode v) (settings v)), SetIsActive False])
         @ [SetTimerStates updatedTimerStates,
            UpdateTimerState (timerMode v) (timeRemaining v) False (completedPomodoros v)
              updatedTimerStates])"

text \<open>
  The effect that starts and stops the interval (dependencies \<^verbatim>\<open>[isActive, timerMode,
  completedPomodoros, settings, timeRemaining, setTimerMode, onPomodoroComplete]\<close>); its
  cleanup clears the interval.
\<close>

definition intervalEffect :: "comp \<Rightarrow> action list" where
  "intervalEffect v =
     (if isActive v
      then (if timeRemaining v > 0
            then [SetIntervalIfNone \<lparr>c_timerMode = timerMode v, c_completedPomodoros = completedPomodoros v,
                                     c_settings = settings v, c_timerStates = timerStates v\<rparr>]
            else [])
      else [ClearInterval])"

text \<open>
  The updater that the interval's callback passes to \<^verbatim>\<open>setTimeRemaining\<close>, on the current
  value \<open>prev\<close>: its statements in order, the value it returns last. It does not call
  \<^verbatim>\<open>setIsActive\<close>.
\<close>

definition tickCallback :: "closure \<Rightarrow> int \<Rightarrow> action list" where
  "tickCallback cl prev =
     (if prev \<le> 1 then
        [ClearInterval, PlayAlarmSound]
        @ (if c_timerMode cl = ''pomodoro''
           then [SetCompletedPomodoros (c_completedPomodoros cl + 1), OnPomodoroComplete]
           else [])
        @ [SetTimerStates ((c_timerStates cl)(c_timerMode cl \<mapsto>
              \<lparr>slot_timeRemaining = getDuration (c_timerMode cl) (c_settings cl), slot_isActive = False\<rparr>)),
           SetTimerMode (nextModeAfter (c_timerMode cl) (c_completedPomodoros cl) (c_settings cl)),
           SetTimerModeLater (nextModeAfter (c_timerMode cl) (c_completedPomodoros cl) (c_settings cl)),
           SetTimeRemaining 0]
      else [SetTimeRemaining (prev - 1)])"

text \<open>
  The body of the \<^verbatim>\<open>forEach\<close> of the settings effect, for one mode and its slot.
  \<^verbatim>\<open>oldFullDuration\<close> is \<^verbatim>\<open>getDuration(mode, {...settings, timerDurations:
  {...settings.timerDurations}})\<close>: a copy of the settings the effect runs with, the new ones.
\<close>

definition reconcile :: "Settings \<Rightarrow> string \<Rightarrow> slot \<Rightarrow> slot" where
  "reconcile cfg mode currentState =
     (let newFullDuration = getDuration mode cfg;
          oldFullDuration = getDuration mode cfg
      in if slot_isActive currentState \<or> slot_timeRemaining currentState < oldFullDuration
         then (let elapsedTime = max 0 (oldFullDuration - slot_timeRemaining currentState);
                   newTimeRemaining = max 1 (newFullDuration - elapsedTime)
               in currentState\<lparr>slot_timeRemaining := newTimeRemaining\<rparr>)
         else currentState\<lparr>slot_timeRemaining := newFullDuration\<rparr>)"

text \<open>
  The effect with dependency \<^verbatim>\<open>[settings.timerDurations]\<close>. Inside the callback,
  \<^verbatim>\<open>const timerMode = mode as keyof typeof timerStates\<close> shadows the prop, so the test
  \<^verbatim>\<open>mode === timerMode\<close> holds for each of the three modes and \<^verbatim>\<open>setTimeRemaining\<close>
  is called three times, the long break's value last. Reading \<^verbatim>\<open>isActive\<close> of a missing
  slot throws (\<open>None\<close>).
\<close>

definition onSettingsChange :: "comp \<Rightarrow> action list option" where
  "onSettingsChange v =
     (case (timerStates v ''pomodoro'', timerStates v ''shortBreak'', timerStates v ''longBreak'') of
        (Some p, Some s, Some l) \<Rightarrow>
          (let p' = reconcile (settings v) ''pomodoro'' p;
               s' = reconcile (settings v) ''shortBreak'' s;
               l' = reconcile (settings v) ''longBreak'' l;
               updatedTimerStates = (timerStates v)(''pomodoro'' \<mapsto> p', ''shortBreak'' \<mapsto> s', ''longBreak'' \<mapsto> l')
           in Some [SetTimeRemaining (slot_timeRemaining p'),
                    SetTimeRemaining (slot_timeRemaining s'),
                    SetTimeRemaining (slot_timeRemaining l'),
                    SetTimerStates updatedTimerStates,
                    UpdateTimerState (timerMode v) (timeRemaining v) (isActive v) (completedPomodoros v)
                      updatedTimerStates])
      | other \<Rightarrow> None)"

subsection \<open>Renders, commits and events\<close>

text \<open>
  The body of the component calls \<^verbatim>\<open>getSavedTimerState()\<close> on every render
  (\<^verbatim>\<open>const savedState = getSavedTimerState()\<close>); after the first render only its side
  effects remain.
\<close>

definition render :: "int \<Rightarrow> comp \<Rightarrow> comp" where
  "render now c = perform now (snd (getSavedTimerState (timerMode c) (settings c) now (storage c))) c"

text \<open>
  After a render React runs the effects whose dependencies changed since the previous render
  (all of them on mount), cleanups first, in the order of declaration, each with the values of
  that render; the setters they call are applied together and, if a state changed, the
  component renders again. The state \<^verbatim>\<open>timerStates\<close> is an object, so every
  \<^verbatim>\<open>setTimerStates\<close> counts as a change (\<open>tsNew\<close>); so does every new \<open>settings\<close>
  (\<open>stNew\<close>). \<open>prev\<close> holds the values of the previous render.
\<close>

datatype failure = Crash | NotQuiescent | NotEnabled

definition effects :: "bool \<Rightarrow> bool \<Rightarrow> bool \<Rightarrow> comp \<Rightarrow> comp \<Rightarrow> action list option" where
  "effects mount tsNew stNew prev v =
     (let dRemaining = (timeRemaining v \<noteq> timeRemaining prev);
          dActive = (isActive v \<noteq> isActive prev);
          dCompleted = (completedPomodoros v \<noteq> completedPomodoros prev);
          dMode = (timerMode v \<noteq> timerMode prev);
          run1 = (mount \<or> dRemaining \<or> dActive \<or> dCompleted \<or> dMode \<or> tsNew);
          run2 = (mount \<or> dActive);
          run3 = (mount \<or> dMode);
          run4 = (mount \<or> dActive \<or> dMode \<or> dCompleted \<or> stNew \<or> dRemaining);
          run5 = (mount \<or> stNew)
      in case (if run5 then onSettingsChange v else Some []) of
           None \<Rightarrow> None
         | Some e5 \<Rightarrow>
             Some ((if run4 \<and> \<not> mount then [ClearInterval] else [])
                   @ (if run1 then saveWhileActive v else [])
                   @ (if run2 then saveOnActiveChange v else [])
                   @ (if run3 then onTimerModeChange v else [])
                   @ (if run4 then intervalEffect v else [])
                   @ e5))"

text \<open>
  Effects and re-renders until no state changes, at most \<open>n\<close> rounds (\<open>NotQuiescent\<close> when
  they are not enough); \<open>Crash\<close> is an exception thrown by an effect.
\<close>

fun commit :: "nat \<Rightarrow> bool \<Rightarrow> int \<Rightarrow> comp \<Rightarrow> bool \<Rightarrow> bool \<Rightarrow> comp \<Rightarrow> failure + comp" where
  "commit 0 mount now prev tsNew stNew v = Inl NotQuiescent"
| "commit (Suc n) mount now prev tsNew stNew v =
     (case effects mount tsNew stNew prev v of
        None \<Rightarrow> Inl Crash
      | Some acts \<Rightarrow>
         (let c' = perform now acts v;
              tsSet = list_ex isSetTimerStates acts
          in if tsSet \<or> timeRemaining c' \<noteq> timeRemaining v \<or> isActive c' \<noteq> isActive v
                \<or> completedPomodoros c' \<noteq> completedPomodoros v \<or> timerMode c' \<noteq> timerMode v
             then commit n False now v tsSet False (render now c')
             else Inr c'))"

definition rerender :: "int \<Rightarrow> bool \<Rightarrow> bool \<Rightarrow> comp \<Rightarrow> comp \<Rightarrow> failure + comp" where
  "rerender now tsNew stNew prev c = commit 8 False now prev tsNew stNew (render now c)"

text \<open>
  Loading the page at time \<open>now\<close>: \<^verbatim>\<open>App\<close> takes \<^verbatim>\<open>timerMode\<close> from the stored item
  (\<^verbatim>\<open>parsed.timerMode || 'pomodoro'\<close>), the first render initialises the four states from
  \<^verbatim>\<open>getSavedTimerState()\<close>, then every effect runs.
\<close>

definition mount :: "int \<Rightarrow> Settings \<Rightarrow> stored \<Rightarrow> failure + comp" where
  "mount now cfg st =
     (let appMode = (case st of
                       Saved parsed \<Rightarrow> if ts_timerMode parsed \<noteq> [] then ts_timerMode parsed else ''pomodoro''
                     | other \<Rightarrow> ''pomodoro'');
          saved = getSavedTimerState appMode cfg now st;
          savedSlot = (case ts_timerStates (fst saved) of Some m \<Rightarrow> m appMode | None \<Rightarrow> None);
          c0 = \<lparr>timerMode = appMode, settings = cfg,
                timeRemaining = (case savedSlot of
                                   Some s \<Rightarrow> if slot_timeRemaining s \<noteq> 0 then slot_timeRemaining s
                                             else ts_timeRemaining (fst saved)
                                 | None \<Rightarrow> ts_timeRemaining (fst saved)),
                isActive = (case savedSlot of Some s \<Rightarrow> slot_isActive s | None \<Rightarrow> False),
                completedPomodoros = ts_completedPomodoros (fst saved),
                timerStates = (case ts_timerStates (fst saved) of Some m \<Rightarrow> m | None \<Rightarrow> freshTimerStates cfg),
                interval = None, storage = st, later = [], notified = 0, alarms = 0\<rparr>
      in commit 8 True now c0 False False (perform now (snd saved) c0))"

text \<open>
  The handlers \<^verbatim>\<open>toggleTimer\<close> and \<^verbatim>\<open>resetTimer\<close>.
\<close>

definition toggleTimer :: "comp \<Rightarrow> comp" where
  "toggleTimer c = c\<lparr>isActive := \<not> isActive c\<rparr>"

definition resetTimer :: "comp \<Rightarrow> comp" where
  "resetTimer c = c\<lparr>isActive := False, timeRemaining := getDuration (timerMode c) (settings c)\<rparr>"

text \<open>
  What can happen to a mounted component, each at a time: a click on Start/Pause, on Reset, on a
  mode button; the interval firing (not before it is due; \<^verbatim>\<open>setInterval\<close> re-arms itself);
  new settings from the settings dialog; a waiting \<^verbatim>\<open>setTimeout\<close> running; a reload of the
  page. State changes made by one handler or callback are rendered together.
\<close>

datatype event =
    Toggle int
  | Reset int
  | SelectMode int string
  | Tick int
  | ChangeSettings int Settings
  | RunLater int
  | Reload int

fun step :: "comp \<Rightarrow> event \<Rightarrow> failure + comp" where
  "step c (Toggle now) = rerender now False False c (toggleTimer c)"
| "step c (Reset now) = rerender now False False c (resetTimer c)"
| "step c (SelectMode now m) = rerender now False False c (c\<lparr>timerMode := m\<rparr>)"
| "step c (Tick now) =
     (case interval c of
        None \<Rightarrow> Inl NotEnabled
      | Some (due, cl) \<Rightarrow>
          if now < due then Inl NotEnabled
          else rerender now (list_ex isSetTimerStates (tickCallback cl (timeRemaining c))) False c
                 (perform now (tickCallback cl (timeRemaining c)) (c\<lparr>interval := Some (due + 1000, cl)\<rparr>)))"
| "step c (ChangeSettings now cfg) = rerender now False True c (c\<lparr>settings := cfg\<rparr>)"
| "step c (RunLater now) =
     (case later c of
        [] \<Rightarrow> Inl NotEnabled
      | m # ms \<Rightarrow> rerender now False False c (c\<lparr>timerMode := m, later := ms\<rparr>))"
| "step c (Reload now) = mount now (settings c) (storage c)"

fun exec :: "failure + comp \<Rightarrow> event list \<Rightarrow> failure + comp" where
  "exec r [] = r"
| "exec (Inl e) (ev # evs) = Inl e"
| "exec (Inr c) (ev # evs) = exec (step c ev) evs"

subsection \<open>Fixtures and vocabulary of the statements\<close>

text \<open>The settings the application starts with: 25, 5 and 15 minutes, a long break every 4.\<close>

definition defaultSettings :: Settings where
  "defaultSettings = \<lparr>pomodoro = 25, shortBreak = 5, longBreak = 15, longBreakInterval = 4\<rparr>"

text \<open>A running pomodoro at its last second, with the interval due at 5000.\<close>

definition focusAtOne :: comp where
  "focusAtOne =
     \<lparr>timerMode = ''pomodoro'', settings = defaultSettings, timeRemaining = 1, isActive = True,
      completedPomodoros = 0, timerStates = freshTimerStates defaultSettings,
      interval = Some (5000, \<lparr>c_timerMode = ''pomodoro'', c_completedPomodoros = 0,
                               c_settings = defaultSettings,
                               c_timerStates = freshTimerStates defaultSettings\<rparr>),
      storage = NoItem, later = [], notified = 0, alarms = 0\<rparr>"

text \<open>
  The item stored by a pomodoro that was running with 1193 seconds left when it was last saved,
  at time 1000000; and the item of a paused pomodoro with 3 seconds left.
\<close>

definition runningFocus :: stored where
  "runningFocus = Saved
     \<lparr>ts_timeRemaining = 1193, ts_isActive = True, ts_completedPomodoros = 0,
      ts_activeTimestamp = Some 1000000, ts_timerMode = ''pomodoro'', ts_originalDuration = Some 1500,
      ts_timerStates = Some ((freshTimerStates defaultSettings)(''pomodoro'' \<mapsto>
                               \<lparr>slot_timeRemaining = 1193, slot_isActive = True\<rparr>))\<rparr>"

definition shortFocus :: stored where
  "shortFocus = Saved
     \<lparr>ts_timeRemaining = 3, ts_isActive = False, ts_completedPomodoros = 0,
      ts_activeTimestamp = None, ts_timerMode = ''pomodoro'', ts_originalDuration = Some 1500,
      ts_timerStates = Some ((freshTimerStates defaultSettings)(''pomodoro'' \<mapsto>
                               \<lparr>slot_timeRemaining = 3, slot_isActive = False\<rparr>))\<rparr>"

fun isToggle :: "event \<Rightarrow> bool" where
  "isToggle (Toggle now) = True"
| "isToggle ev = False"

fun isTick :: "event \<Rightarrow> bool" where
  "isTick (Tick now) = True"
| "isTick ev = False"

text \<open>The actions that set none of \<open>timeRemaining\<close>, \<open>isActive\<close>, \<open>completedPomodoros\<close>, \<open>timerMode\<close>.\<close>

fun neutral :: "action \<Rightarrow> bool" where
  "neutral (SetTimeRemaining t) = False"
| "neutral (SetIsActive b) = False"
| "neutral (SetCompletedPomodoros n) = False"
| "neutral (SetTimerMode m) = False"
| "neutral a = True"

text \<open>The neutral actions that do not register an interval either.\<close>

fun quietAct :: "action \<Rightarrow> bool" where
  "quietAct (SetIntervalIfNone cl) = False"
| "quietAct a = neutral a"

definition sameView :: "comp \<Rightarrow> comp \<Rightarrow> bool" where
  "sameView c c' \<longleftrightarrow> timeRemaining c' = timeRemaining c \<and> isActive c' = isActive c
      \<and> completedPomodoros c' = completedPomodoros c \<and> timerMode c' = timerMode c \<and> settings c' = settings c"

section \<open>Properties of the localStorage utilities\<close>

lemma map_of_update_same: "map_of (AList.update k v al) k = Some v"
  by (simp add: update_conv')

lemma map_of_update_other: "k' \<noteq> k \<Longrightarrow> map_of (AList.update k v al) k' = map_of al k'"
  by (simp add: update_conv')

lemma setProp_Inr: "setProp x k v = Inr r \<Longrightarrow> \<exists>kvs. x = Some (JObj kvs) \<and> r = JObj (AList.update k v kvs)"
  by (cases "(x, k, v)" rule: setProp.cases) auto

lemma optProp_setProp_same: "setProp x k v = Inr r \<Longrightarrow> optProp (Some r) k = Some v"
  by (auto dest!: setProp_Inr simp: map_of_update_same)

lemma getProp_optProp: "getProp x k = Inr r \<Longrightarrow> r = optProp x k"
  by (cases "(x, k)" rule: getProp.cases) auto

lemma optProp_Some_cases:
  "optProp x k = Some v \<Longrightarrow> \<exists>kvs. x = Some (JObj kvs) \<and> map_of kvs k = Some v"
  by (cases "(x, k)" rule: optProp.cases) auto

subsection \<open>getTimerState resets every inactive slot\<close>

lemma resetIfInactive_same:
  assumes "resetIfInactive ts kind c = Inr ts'"
  shows "optProp (optProp ts' kind) ''isActive'' = optProp (optProp ts kind) ''isActive''"
    and "\<not> truthy (optProp (optProp ts kind) ''isActive'') \<Longrightarrow>
           optProp (optProp ts' kind) ''timeRemaining'' = Some (JNum c)"
  using assms
  by (auto simp: resetIfInactive_def split: sum.splits if_splits
      dest!: getProp_optProp setProp_Inr simp: map_of_update_same map_of_update_other)

lemma resetIfInactive_other:
  assumes "resetIfInactive ts kind c = Inr ts'" and "kind' \<noteq> kind"
  shows "optProp ts' kind' = optProp ts kind'"
  using assms
  by (auto simp: resetIfInactive_def split: sum.splits if_splits
      dest!: getProp_optProp setProp_Inr simp: map_of_update_same map_of_update_other)

lemma freshSlots_fields:
  "optProp (optProp (Some (freshSlots s)) ''pomodoro'') ''timeRemaining'' = Some (JNum (pomodoro s * 60))"
  "optProp (optProp (Some (freshSlots s)) ''shortBreak'') ''timeRemaining'' = Some (JNum (shortBreak s * 60))"
  "optProp (optProp (Some (freshSlots s)) ''longBreak'') ''timeRemaining'' = Some (JNum (longBreak s * 60))"
  by (simp_all add: freshSlots_def freshSlot_def)

lemma createFresh_inactiveFull:
  "inactiveFull (createFreshTimerState m s) ''pomodoro'' (pomodoro s * 60)"
  "inactiveFull (createFreshTimerState m s) ''shortBreak'' (shortBreak s * 60)"
  "inactiveFull (createFreshTimerState m s) ''longBreak'' (longBreak s * 60)"
  by (simp_all add: createFreshTimerState_def Let_def freshSlots_def freshSlot_def)

lemma reset_chain:
  assumes 1: "resetIfInactive ts ''pomodoro'' cp = Inr ts1"
      and 2: "resetIfInactive ts1 ''shortBreak'' cs = Inr ts2"
      and 3: "resetIfInactive ts2 ''longBreak'' cl = Inr ts3"
  shows "\<not> truthy (optProp (optProp ts3 ''pomodoro'') ''isActive'')
           \<longrightarrow> optProp (optProp ts3 ''pomodoro'') ''timeRemaining'' = Some (JNum cp)"
    and "\<not> truthy (optProp (optProp ts3 ''shortBreak'') ''isActive'')
           \<longrightarrow> optProp (optProp ts3 ''shortBreak'') ''timeRemaining'' = Some (JNum cs)"
    and "\<not> truthy (optProp (optProp ts3 ''longBreak'') ''isActive'')
           \<longrightarrow> optProp (optProp ts3 ''longBreak'') ''timeRemaining'' = Some (JNum cl)"
proof -
  have p3: "optProp ts3 ''pomodoro'' = optProp ts1 ''pomodoro''"
    using resetIfInactive_other[OF 3, of "''pomodoro''"] resetIfInactive_other[OF 2, of "''pomodoro''"]
    by simp
  show "\<not> truthy (optProp (optProp ts3 ''pomodoro'') ''isActive'')
           \<longrightarrow> optProp (optProp ts3 ''pomodoro'') ''timeRemaining'' = Some (JNum cp)"
    using resetIfInactive_same[OF 1] p3 by auto
  have s3: "optProp ts3 ''shortBreak'' = optProp ts2 ''shortBreak''"
    using resetIfInactive_other[OF 3, of "''shortBreak''"] by simp
  show "\<not> truthy (optProp (optProp ts3 ''shortBreak'') ''isActive'')
           \<longrightarrow> optProp (optProp ts3 ''shortBreak'') ''timeRemaining'' = Some (JNum cs)"
    using resetIfInactive_same[OF 2] s3 by auto
  show "\<not> truthy (optProp (optProp ts3 ''longBreak'') ''isActive'')
           \<longrightarrow> optProp (optProp ts3 ''longBreak'') ''timeRemaining'' = Some (JNum cl)"
    using resetIfInactive_same[OF 3] by auto
qed

lemma getTimerState_try_inactiveFull:
  assumes "getTimerState_try m s p = Inr r"
  shows "inactiveFull r ''pomodoro'' (pomodoro s * 60)
       \<and> inactiveFull r ''shortBreak'' (shortBreak s * 60)
       \<and> inactiveFull r ''longBreak'' (longBreak s * 60)"
proof -
  from assms obtain st1 ts where
    ts: "getProp (Some st1) ''timerStates'' = Inr ts"
    and r: "(\<not> truthy ts \<and> setProp (Some st1) ''timerStates'' (freshSlots s) = Inr r)
          \<or> (\<exists>ts1 ts2 ts3. resetIfInactive ts ''pomodoro'' (pomodoro s * 60) = Inr ts1
                \<and> resetIfInactive ts1 ''shortBreak'' (shortBreak s * 60) = Inr ts2
                \<and> resetIfInactive ts2 ''longBreak'' (longBreak s * 60) = Inr (Some ts3)
                \<and> setProp (Some st1) ''timerStates'' ts3 = Inr r)"
    by (auto simp: getTimerState_try_def Let_def split: sum.splits if_splits option.splits)
  from r show ?thesis
  proof
    assume a: "\<not> truthy ts \<and> setProp (Some st1) ''timerStates'' (freshSlots s) = Inr r"
    then have "optProp (Some r) ''timerStates'' = Some (freshSlots s)"
      by (auto dest: optProp_setProp_same)
    then show ?thesis
      by (simp add: freshSlots_fields)
  next
    assume "\<exists>ts1 ts2 ts3. resetIfInactive ts ''pomodoro'' (pomodoro s * 60) = Inr ts1
                \<and> resetIfInactive ts1 ''shortBreak'' (shortBreak s * 60) = Inr ts2
                \<and> resetIfInactive ts2 ''longBreak'' (longBreak s * 60) = Inr (Some ts3)
                \<and> setProp (Some st1) ''timerStates'' ts3 = Inr r"
    then obtain ts1 ts2 ts3 where
      c1: "resetIfInactive ts ''pomodoro'' (pomodoro s * 60) = Inr ts1"
      and c2: "resetIfInactive ts1 ''shortBreak'' (shortBreak s * 60) = Inr ts2"
      and c3: "resetIfInactive ts2 ''longBreak'' (longBreak s * 60) = Inr (Some ts3)"
      and c4: "setProp (Some st1) ''timerStates'' ts3 = Inr r"
      by blast
    from c4 have "optProp (Some r) ''timerStates'' = Some ts3"
      by (auto dest: optProp_setProp_same)
    with reset_chain[OF c1 c2 c3] show ?thesis
      by simp
  qed
qed

text \<open>
  Claim C9. Whatever item is stored and whatever the settings are, in the state that
  \<^verbatim>\<open>getTimerState\<close> returns every slot whose \<^verbatim>\<open>isActive\<close> is false (or absent) has
  \<^verbatim>\<open>timeRemaining\<close> equal to the configured duration of its kind, minutes times 60:
  the remaining time stored for a paused slot is overwritten on load.
\<close>

theorem getTimerState_discards_paused_progress:
  "inactiveFull (getTimerState mode cfg stored) ''pomodoro'' (pomodoro cfg * 60)
   \<and> inactiveFull (getTimerState mode cfg stored) ''shortBreak'' (shortBreak cfg * 60)
   \<and> inactiveFull (getTimerState mode cfg stored) ''longBreak'' (longBreak cfg * 60)"
proof (cases stored)
  case (Parsed p)
  show ?thesis
  proof (cases "getTimerState_try mode cfg p")
    case (Inl e)
    with Parsed show ?thesis
      by (simp add: getTimerState_def createFresh_inactiveFull)
  next
    case (Inr r)
    with Parsed getTimerState_try_inactiveFull[OF Inr] show ?thesis
      by (simp add: getTimerState_def)
  qed
qed (simp_all add: getTimerState_def createFresh_inactiveFull)

text \<open>
  A pomodoro paused with 1193 of 1500 seconds left, and a short break paused with 100 of 300
  seconds left, both come back at their full duration.
\<close>

theorem getTimerState_discards_paused_progress_witness:
  "\<not> truthy (slotField (getTimerState ''pomodoro''
        \<lparr>pomodoro = 25, shortBreak = 5, longBreak = 15, longBreakInterval = 4\<rparr>
        (Parsed (JObj [(''timeRemaining'', JNum 1193), (''isActive'', JBool False),
           (''completedPomodoros'', JNum 0), (''timerMode'', JStr ''pomodoro''),
           (''timerStates'', JObj
              [(''pomodoro'', JObj [(''timeRemaining'', JNum 1193), (''isActive'', JBool False)]),
               (''shortBreak'', JObj [(''timeRemaining'', JNum 100), (''isActive'', JBool False)]),
               (''longBreak'', JObj [(''timeRemaining'', JNum 900), (''isActive'', JBool False)])])])))
      ''pomodoro'' ''isActive'')
   \<and> slotField (getTimerState ''pomodoro''
        \<lparr>pomodoro = 25, shortBreak = 5, longBreak = 15, longBreakInterval = 4\<rparr>
        (Parsed (JObj [(''timeRemaining'', JNum 1193), (''isActive'', JBool False),
           (''completedPomodoros'', JNum 0), (''timerMode'', JStr ''pomodoro''),
           (''timerStates'', JObj
              [(''pomodoro'', JObj [(''timeRemaining'', JNum 1193), (''isActive'', JBool False)]),
               (''shortBreak'', JObj [(''timeRemaining'', JNum 100), (''isActive'', JBool False)]),
               (''longBreak'', JObj [(''timeRemaining'', JNum 900), (''isActive'', JBool False)])])])))
      ''pomodoro'' ''timeRemaining'' = Some (JNum 1500)
   \<and> slotField (getTimerState ''pomodoro''
        \<lparr>pomodoro = 25, shortBreak = 5, longBreak = 15, longBreakInterval = 4\<rparr>
        (Parsed (JObj [(''timeRemaining'', JNum 1193), (''isActive'', JBool False),
           (''completedPomodoros'', JNum 0), (''timerMode'', JStr ''pomodoro''),
           (''timerStates'', JObj
              [(''pomodoro'', JObj [(''timeRemaining'', JNum 1193), (''isActive'', JBool False)]),
               (''shortBreak'', JObj [(''timeRemaining'', JNum 100), (''isActive'', JBool False)]),
               (''longBreak'', JObj [(''timeRemaining'', JNum 900), (''isActive'', JBool False)])])])))
      ''shortBreak'' ''timeRemaining'' = Some (JNum 300)"
  using getTimerState_discards_paused_progress [of "''pomodoro''"
        "\<lparr>pomodoro = 25, shortBreak = 5, longBreak = 15, longBreakInterval = 4\<rparr>"
        "Parsed (JObj [(''timeRemaining'', JNum 1193), (''isActive'', JBool False),
           (''completedPomodoros'', JNum 0), (''timerMode'', JStr ''pomodoro''),
           (''timerStates'', JObj
              [(''pomodoro'', JObj [(''timeRemaining'', JNum 1193), (''isActive'', JBool False)]),
               (''shortBreak'', JObj [(''timeRemaining'', JNum 100), (''isActive'', JBool False)]),
               (''longBreak'', JObj [(''timeRemaining'', JNum 900), (''isActive'', JBool False)])])])"]
  by (simp add: getTimerState_def getTimerState_try_def resetIfInactive_def)

subsection \<open>fixHardcodedPomodoroTime\<close>

lemma fixTopLevel_obj:
  "fixTopLevel field (JObj kvs, b) =
     Inr (if map_of kvs ''timerMode'' = Some (JStr ''pomodoro'') \<and> map_of kvs field = Some (JNum 900)
          then (JObj (AList.update field (JNum 1500) kvs), True) else (JObj kvs, b))"
  by (simp add: fixTopLevel_def)

lemma fixTopLevel_prim:
  "p \<noteq> JNull \<Longrightarrow> \<forall>kvs. p \<noteq> JObj kvs \<Longrightarrow> fixTopLevel field (p, b) = Inr (p, b)"
  by (cases p) (simp_all add: fixTopLevel_def)

lemma setPomodoroRemaining_obj:
  assumes "slotField (JObj kvs) ''pomodoro'' ''timeRemaining'' = Some (JNum 900)"
  shows "\<exists>tkvs pkvs. map_of kvs ''timerStates'' = Some (JObj tkvs) \<and> map_of tkvs ''pomodoro'' = Some (JObj pkvs)
           \<and> map_of pkvs ''timeRemaining'' = Some (JNum 900)
           \<and> setPomodoroRemaining (JObj kvs) v =
              Inr (JObj (AList.update ''timerStates''
                     (JObj (AList.update ''pomodoro'' (JObj (AList.update ''timeRemaining'' (JNum v) pkvs)) tkvs)) kvs))"
proof -
  from assms obtain pkvs where p: "optProp (optProp (Some (JObj kvs)) ''timerStates'') ''pomodoro'' = Some (JObj pkvs)"
    "map_of pkvs ''timeRemaining'' = Some (JNum 900)"
    by (blast dest: optProp_Some_cases)
  from p(1) obtain tkvs where t: "optProp (Some (JObj kvs)) ''timerStates'' = Some (JObj tkvs)"
    "map_of tkvs ''pomodoro'' = Some (JObj pkvs)"
    by (blast dest: optProp_Some_cases)
  from t(1) have "map_of kvs ''timerStates'' = Some (JObj tkvs)" by simp
  with p t show ?thesis
    by (simp add: setPomodoroRemaining_def)
qed

lemma fixHardcoded_try_obj:
  "\<exists>kvs'. fixHardcoded_try (JObj kvs) =
     Inr (JObj kvs',
          slotField (JObj kvs) ''pomodoro'' ''timeRemaining'' = Some (JNum 900)
          \<or> (map_of kvs ''timerMode'' = Some (JStr ''pomodoro'')
              \<and> (map_of kvs ''timeRemaining'' = Some (JNum 900) \<or> map_of kvs ''originalDuration'' = Some (JNum 900))))
     \<and> slotField (JObj kvs') ''pomodoro'' ''timeRemaining'' =
          (if slotField (JObj kvs) ''pomodoro'' ''timeRemaining'' = Some (JNum 900) then Some (JNum 1500)
           else slotField (JObj kvs) ''pomodoro'' ''timeRemaining'')
     \<and> map_of kvs' ''timeRemaining'' =
          (if map_of kvs ''timerMode'' = Some (JStr ''pomodoro'') \<and> map_of kvs ''timeRemaining'' = Some (JNum 900)
           then Some (JNum 1500) else map_of kvs ''timeRemaining'')
     \<and> map_of kvs' ''originalDuration'' =
          (if map_of kvs ''timerMode'' = Some (JStr ''pomodoro'') \<and> map_of kvs ''originalDuration'' = Some (JNum 900)
           then Some (JNum 1500) else map_of kvs ''originalDuration'')
     \<and> map_of kvs' ''timerMode'' = map_of kvs ''timerMode''
     \<and> (\<not> (slotField (JObj kvs) ''pomodoro'' ''timeRemaining'' = Some (JNum 900)
          \<or> (map_of kvs ''timerMode'' = Some (JStr ''pomodoro'')
              \<and> (map_of kvs ''timeRemaining'' = Some (JNum 900) \<or> map_of kvs ''originalDuration'' = Some (JNum 900))))
         \<longrightarrow> kvs' = kvs)"
proof (cases "slotField (JObj kvs) ''pomodoro'' ''timeRemaining'' = Some (JNum 900)")
  case True
  from setPomodoroRemaining_obj[OF True, of 1500] obtain tkvs pkvs where
    h: "map_of kvs ''timerStates'' = Some (JObj tkvs)" "map_of tkvs ''pomodoro'' = Some (JObj pkvs)"
       "setPomodoroRemaining (JObj kvs) 1500 =
              Inr (JObj (AList.update ''timerStates''
                     (JObj (AList.update ''pomodoro'' (JObj (AList.update ''timeRemaining'' (JNum 1500) pkvs)) tkvs)) kvs))"
    by blast
  with True show ?thesis
    by (simp add: fixHardcoded_try_def fixTopLevel_obj update_conv')
next
  case False
  then show ?thesis
    by (simp add: fixHardcoded_try_def fixTopLevel_obj update_conv')
qed


lemma fixHardcoded_notobj:
  "\<forall>kvs. p \<noteq> JObj kvs \<Longrightarrow> fixHardcodedPomodoroTime (Parsed p) = (Parsed p, False) \<and> \<not> has900 p"
  by (cases p) (simp_all add: fixHardcodedPomodoroTime_def fixHardcoded_try_def fixTopLevel_def has900_def)


text \<open>
  Claim C10. \<^verbatim>\<open>fixHardcodedPomodoroTime\<close> returns true exactly when the stored record
  parses and one of three values is the number 900: \<^verbatim>\<open>timerStates.pomodoro.timeRemaining\<close>,
  or, with \<^verbatim>\<open>timerMode\<close> equal to \<^verbatim>\<open>'pomodoro'\<close>, the top-level \<^verbatim>\<open>timeRemaining\<close> or
  \<^verbatim>\<open>originalDuration\<close>. When it returns false the item is left as it was; when it returns
  true the item written back has each of those values that was 900 replaced by 1500, the others
  and \<^verbatim>\<open>timerMode\<close> as they were. In particular the fresh state of a pomodoro configured to
  15 minutes (900 seconds, nothing elapsed) is rewritten to the fresh state of a 25-minute
  pomodoro.
\<close>

theorem fixHardcodedPomodoroTime_rewrites_900:
  assumes "fixHardcodedPomodoroTime stored = (stored', found)"
  shows "(found \<longleftrightarrow> (\<exists>p. stored = Parsed p \<and> has900 p))
       \<and> (\<not> found \<longrightarrow> stored' = stored)
       \<and> (found \<longrightarrow> (\<exists>p p'. stored = Parsed p \<and> stored' = Parsed p'
             \<and> slotField p' ''pomodoro'' ''timeRemaining'' = to1500 True (slotField p ''pomodoro'' ''timeRemaining'')
             \<and> optProp (Some p') ''timeRemaining'' =
                 to1500 (optProp (Some p) ''timerMode'' = Some (JStr ''pomodoro'')) (optProp (Some p) ''timeRemaining'')
             \<and> optProp (Some p') ''originalDuration'' =
                 to1500 (optProp (Some p) ''timerMode'' = Some (JStr ''pomodoro'')) (optProp (Some p) ''originalDuration'')
             \<and> optProp (Some p') ''timerMode'' = optProp (Some p) ''timerMode''))
       \<and> (\<forall>s. pomodoro s = 15 \<longrightarrow>
             fixHardcodedPomodoroTime (Parsed (createFreshTimerState ''pomodoro'' s))
               = (Parsed (createFreshTimerState ''pomodoro'' (s\<lparr>pomodoro := 25\<rparr>)), True))"
proof -
  have legit: "\<forall>s. pomodoro s = 15 \<longrightarrow>
             fixHardcodedPomodoroTime (Parsed (createFreshTimerState ''pomodoro'' s))
               = (Parsed (createFreshTimerState ''pomodoro'' (s\<lparr>pomodoro := 25\<rparr>)), True)"
    by (simp add: fixHardcodedPomodoroTime_def fixHardcoded_try_def fixTopLevel_def
          setPomodoroRemaining_def createFreshTimerState_def freshSlots_def freshSlot_def)
  have main: "(found \<longleftrightarrow> (\<exists>p. stored = Parsed p \<and> has900 p))
       \<and> (\<not> found \<longrightarrow> stored' = stored)
       \<and> (found \<longrightarrow> (\<exists>p p'. stored = Parsed p \<and> stored' = Parsed p'
             \<and> slotField p' ''pomodoro'' ''timeRemaining'' = to1500 True (slotField p ''pomodoro'' ''timeRemaining'')
             \<and> optProp (Some p') ''timeRemaining'' =
                 to1500 (optProp (Some p) ''timerMode'' = Some (JStr ''pomodoro'')) (optProp (Some p) ''timeRemaining'')
             \<and> optProp (Some p') ''originalDuration'' =
                 to1500 (optProp (Some p) ''timerMode'' = Some (JStr ''pomodoro'')) (optProp (Some p) ''originalDuration'')
             \<and> optProp (Some p') ''timerMode'' = optProp (Some p) ''timerMode''))"
  proof (cases stored)
  case Missing
  with assms show ?thesis by (auto simp: fixHardcodedPomodoroTime_def)
next
  case Unparseable
  with assms show ?thesis by (auto simp: fixHardcodedPomodoroTime_def)
next
  case (Parsed p)
  show ?thesis
  proof (cases "\<exists>kvs. p = JObj kvs")
    case False
    with fixHardcoded_notobj[of p] assms Parsed show ?thesis by auto
  next
    case True
    then obtain kvs where p: "p = JObj kvs" by blast
    from fixHardcoded_try_obj[of kvs] obtain kvs' where
      t: "fixHardcoded_try (JObj kvs) = Inr (JObj kvs', has900 (JObj kvs))"
      and f: "slotField (JObj kvs') ''pomodoro'' ''timeRemaining'' =
               to1500 True (slotField (JObj kvs) ''pomodoro'' ''timeRemaining'')"
         "map_of kvs' ''timeRemaining'' =
            to1500 (map_of kvs ''timerMode'' = Some (JStr ''pomodoro'')) (map_of kvs ''timeRemaining'')"
         "map_of kvs' ''originalDuration'' =
            to1500 (map_of kvs ''timerMode'' = Some (JStr ''pomodoro'')) (map_of kvs ''originalDuration'')"
         "map_of kvs' ''timerMode'' = map_of kvs ''timerMode''"
      unfolding has900_def to1500_def by (simp (no_asm_use)) blast
    from assms Parsed p t have r: "found = has900 (JObj kvs)"
      "stored' = (if has900 (JObj kvs) then Parsed (JObj kvs') else stored)"
      by (auto simp: fixHardcodedPomodoroTime_def split: if_splits)
    with Parsed p f show ?thesis by auto
  qed
qed
  from main legit show ?thesis by blast
qed

text \<open>The fresh state of a 15-minute pomodoro, run through the fix.\<close>

theorem fixHardcodedPomodoroTime_rewrites_900_witness:
  "fixHardcodedPomodoroTime (Parsed (createFreshTimerState ''pomodoro''
       \<lparr>pomodoro = 15, shortBreak = 5, longBreak = 15, longBreakInterval = 4\<rparr>))
     = (Parsed (createFreshTimerState ''pomodoro''
         \<lparr>pomodoro = 25, shortBreak = 5, longBreak = 15, longBreakInterval = 4\<rparr>), True)
   \<and> has900 (createFreshTimerState ''pomodoro''
       \<lparr>pomodoro = 15, shortBreak = 5, longBreak = 15, longBreakInterval = 4\<rparr>)
   \<and> slotField (createFreshTimerState ''pomodoro''
         \<lparr>pomodoro = 25, shortBreak = 5, longBreak = 15, longBreakInterval = 4\<rparr>)
        ''pomodoro'' ''timeRemaining'' = Some (JNum 1500)"
proof -
  have e: "fixHardcodedPomodoroTime (Parsed (createFreshTimerState ''pomodoro''
       \<lparr>pomodoro = 15, shortBreak = 5, longBreak = 15, longBreakInterval = 4\<rparr>))
     = (Parsed (createFreshTimerState ''pomodoro''
         \<lparr>pomodoro = 25, shortBreak = 5, longBreak = 15, longBreakInterval = 4\<rparr>), True)"
    by (simp add: fixHardcodedPomodoroTime_def fixHardcoded_try_def fixTopLevel_def
          setPomodoroRemaining_def createFreshTimerState_def freshSlots_def freshSlot_def)
  from fixHardcodedPomodoroTime_rewrites_900 [OF e] e show ?thesis
    by (auto simp: to1500_def createFreshTimerState_def freshSlots_def freshSlot_def)
qed

subsection \<open>What the loaders return for any stored item\<close>

lemma DEFAULT_durations:
  "duration (DEFAULT_SETTINGS t0) ''pomodoro'' = Some (JNum 25)"
  "duration (DEFAULT_SETTINGS t0) ''shortBreak'' = Some (JNum 5)"
  "duration (DEFAULT_SETTINGS t0) ''longBreak'' = Some (JNum 15)"
  by (simp_all add: DEFAULT_SETTINGS_def)

lemma truthy_orElse: "truthy (Some d) \<Longrightarrow> truthy (Some (orElse x d))"
  by (cases x) auto

lemma withDefaults_durations:
  "duration (withDefaults now p) ''pomodoro'' = Some (orElse (duration p ''pomodoro'') (JNum 25))"
  "truthy (duration (withDefaults now p) ''shortBreak'')"
  "truthy (duration (withDefaults now p) ''longBreak'')"
  by (simp_all add: withDefaults_def Let_def truthy_orElse)

lemma getSettings_try_cases:
  assumes "getSettings_try t0 now p = Inr r"
  shows "r = DEFAULT_SETTINGS t0
       \<or> (\<exists>n. duration p ''pomodoro'' = Some (JNum n) \<and> 1 \<le> n \<and> n \<le> 60 \<and> r = withDefaults now p)"
proof -
  from assms obtain td where td: "getProp (Some p) ''timerDurations'' = Inr td"
    by (auto simp: getSettings_try_def split: sum.splits)
  then have td': "td = optProp (Some p) ''timerDurations''" by (rule getProp_optProp)
  show ?thesis
  proof (cases "truthy td")
    case False
    with assms td show ?thesis by (simp add: getSettings_try_def)
  next
    case True
    with assms td obtain pm where pm: "getProp td ''pomodoro'' = Inr pm"
      by (auto simp: getSettings_try_def split: sum.splits)
    then have pm': "pm = duration p ''pomodoro''" using td' by (auto dest: getProp_optProp)
    from assms td True pm pm' have r: "(case duration p ''pomodoro'' of
            Some (JNum n) \<Rightarrow> if n < 1 \<or> n > 60 then DEFAULT_SETTINGS t0 else withDefaults now p
          | other \<Rightarrow> DEFAULT_SETTINGS t0) = r"
      by (auto simp: getSettings_try_def split: json.splits if_splits option.splits)
    show ?thesis
    proof (cases "duration p ''pomodoro''")
      case None
      with r show ?thesis by simp
    next
      case (Some v)
      with r show ?thesis by (cases v) (auto split: if_splits)
    qed
  qed
qed

lemma getSettings_valid:
  assumes "duration p ''pomodoro'' = Some (JNum n)" and "1 \<le> n" and "n \<le> 60"
  shows "getSettings t0 now (Parsed p) = withDefaults now p"
proof -
  obtain kvs where p: "p = JObj kvs"
    using assms(1) by (cases p) auto
  obtain td where td: "map_of kvs ''timerDurations'' = Some td"
    using assms(1) p by (cases "map_of kvs ''timerDurations''") auto
  obtain tkvs where tkvs: "td = JObj tkvs"
    using assms(1) p td by (cases td) auto
  have "map_of tkvs ''pomodoro'' = Some (JNum n)"
    using assms(1) p td tkvs by simp
  with p td tkvs assms(2,3) show ?thesis
    by (simp add: getSettings_def getSettings_try_def)
qed

lemma getSettings_valid_durations:
  assumes "duration p ''pomodoro'' = Some (JNum n)" and "1 \<le> n" and "n \<le> 60"
  shows "duration (getSettings t0 now (Parsed p)) ''pomodoro'' = Some (JNum n)"
    and "duration (getSettings t0 now (Parsed p)) ''shortBreak'' = Some (orElse (duration p ''shortBreak'') (JNum 5))"
    and "duration (getSettings t0 now (Parsed p)) ''longBreak'' = Some (orElse (duration p ''longBreak'') (JNum 15))"
  using assms by (simp_all add: getSettings_valid[OF assms] withDefaults_def Let_def)

lemma getSettings_cases:
  "getSettings t0 now stored = DEFAULT_SETTINGS t0
   \<or> (\<exists>p n. stored = Parsed p \<and> duration p ''pomodoro'' = Some (JNum n) \<and> 1 \<le> n \<and> n \<le> 60
         \<and> getSettings t0 now stored = withDefaults now p)"
  by (auto simp: getSettings_def split: item.splits sum.splits dest: getSettings_try_cases)


text \<open>
  Claim C8, as the code has it. \<^verbatim>\<open>getSettings\<close> and \<^verbatim>\<open>getTimerState\<close> return a value
  for every stored item (every exception ends in the \<^verbatim>\<open>catch\<close>). The pomodoro duration
  that \<^verbatim>\<open>getSettings\<close> returns is always a number from 1 to 60, and the two break
  durations it returns are never absent or 0. Whenever the stored pomodoro duration is not a
  number from 1 to 60 (no item, not JSON, no \<^verbatim>\<open>timerDurations\<close>, a wrong type, out of
  range) the result is \<^verbatim>\<open>DEFAULT_SETTINGS\<close>. \<^verbatim>\<open>getTimerState\<close> returns the fresh state
  when there is no item, when it is not JSON and when it is \<^verbatim>\<open>null\<close>. The break durations
  are not range-checked: with a stored pomodoro duration from 1 to 60, each of them is the
  stored value unless that is absent or falsy, whatever its sign or size.
\<close>

theorem loaders_recover:
  "(\<exists>n. duration (getSettings t0 now stored) ''pomodoro'' = Some (JNum n) \<and> 1 \<le> n \<and> n \<le> 60)
   \<and> truthy (duration (getSettings t0 now stored) ''shortBreak'')
   \<and> truthy (duration (getSettings t0 now stored) ''longBreak'')
   \<and> ((\<forall>p n. stored = Parsed p \<and> duration p ''pomodoro'' = Some (JNum n) \<longrightarrow> n < 1 \<or> 60 < n)
        \<longrightarrow> getSettings t0 now stored = DEFAULT_SETTINGS t0)
   \<and> (\<forall>p n. stored = Parsed p \<and> duration p ''pomodoro'' = Some (JNum n) \<and> 1 \<le> n \<and> n \<le> 60
        \<longrightarrow> duration (getSettings t0 now stored) ''pomodoro'' = Some (JNum n)
          \<and> duration (getSettings t0 now stored) ''shortBreak'' = Some (orElse (duration p ''shortBreak'') (JNum 5))
          \<and> duration (getSettings t0 now stored) ''longBreak'' = Some (orElse (duration p ''longBreak'') (JNum 15)))
   \<and> (stored = Missing \<or> stored = Unparseable \<or> stored = Parsed JNull
        \<longrightarrow> getTimerState mode cfg stored = createFreshTimerState mode cfg)"
proof -
  have d: "getSettings t0 now stored = DEFAULT_SETTINGS t0
   \<or> (\<exists>p n. stored = Parsed p \<and> duration p ''pomodoro'' = Some (JNum n) \<and> 1 \<le> n \<and> n \<le> 60
         \<and> getSettings t0 now stored = withDefaults now p)"
    by (rule getSettings_cases)
  have 1: "\<exists>n. duration (getSettings t0 now stored) ''pomodoro'' = Some (JNum n) \<and> 1 \<le> n \<and> n \<le> 60"
    using d by (auto simp: DEFAULT_durations withDefaults_durations)
  have 2: "truthy (duration (getSettings t0 now stored) ''shortBreak'')"
    using d by (auto simp: DEFAULT_durations withDefaults_durations)
  have 3: "truthy (duration (getSettings t0 now stored) ''longBreak'')"
    using d by (auto simp: DEFAULT_durations withDefaults_durations)
  have 4: "(\<forall>p n. stored = Parsed p \<and> duration p ''pomodoro'' = Some (JNum n) \<longrightarrow> n < 1 \<or> 60 < n)
        \<longrightarrow> getSettings t0 now stored = DEFAULT_SETTINGS t0"
    using d by fastforce
  have 6: "\<forall>p n. stored = Parsed p \<and> duration p ''pomodoro'' = Some (JNum n) \<and> 1 \<le> n \<and> n \<le> 60
        \<longrightarrow> duration (getSettings t0 now stored) ''pomodoro'' = Some (JNum n)
          \<and> duration (getSettings t0 now stored) ''shortBreak'' = Some (orElse (duration p ''shortBreak'') (JNum 5))
          \<and> duration (getSettings t0 now stored) ''longBreak'' = Some (orElse (duration p ''longBreak'') (JNum 15))"
    using getSettings_valid_durations[of _ _ t0 now] by blast
  have 5: "stored = Missing \<or> stored = Unparseable \<or> stored = Parsed JNull
        \<longrightarrow> getTimerState mode cfg stored = createFreshTimerState mode cfg"
    by (auto simp: getTimerState_def getTimerState_try_def Let_def)
  from 1 2 3 4 5 6 show ?thesis by blast
qed


theorem loaders_recover_witness:
  "getSettings 0 1 (Parsed (JObj [(''timerDurations'',
       JObj [(''pomodoro'', JNum 0), (''shortBreak'', JNum 5), (''longBreak'', JNum 15)])])) = DEFAULT_SETTINGS 0
   \<and> getTimerState ''pomodoro'' \<lparr>pomodoro = 25, shortBreak = 5, longBreak = 15, longBreakInterval = 4\<rparr>
         Unparseable
       = createFreshTimerState ''pomodoro'' \<lparr>pomodoro = 25, shortBreak = 5, longBreak = 15, longBreakInterval = 4\<rparr>
   \<and> duration (getSettings 0 1 Unparseable) ''pomodoro'' = Some (JNum 25)
   \<and> duration (getSettings 0 1 (Parsed (JObj [(''timerDurations'',
       JObj [(''pomodoro'', JNum 30), (''shortBreak'', JNum 0)])]))) ''pomodoro'' = Some (JNum 30)
   \<and> duration (getSettings 0 1 (Parsed (JObj [(''timerDurations'',
       JObj [(''pomodoro'', JNum 30), (''shortBreak'', JNum 0)])]))) ''shortBreak'' = Some (JNum 5)
   \<and> duration (getSettings 0 1 (Parsed (JObj [(''timerDurations'',
       JObj [(''pomodoro'', JNum 30), (''shortBreak'', JNum 0)])]))) ''longBreak'' = Some (JNum 15)"
  using loaders_recover [of 0 1 "Parsed (JObj [(''timerDurations'',
       JObj [(''pomodoro'', JNum 0), (''shortBreak'', JNum 5), (''longBreak'', JNum 15)])])"]
    loaders_recover [of 0 1 Unparseable "''pomodoro''"
      "\<lparr>pomodoro = 25, shortBreak = 5, longBreak = 15, longBreakInterval = 4\<rparr>"]
    loaders_recover [of 0 1 "Parsed (JObj [(''timerDurations'',
       JObj [(''pomodoro'', JNum 30), (''shortBreak'', JNum 0)])])"]
  by (simp add: DEFAULT_durations)

text \<open>
  The claim as stated fails on a record whose short break is \<open>-3\<close> minutes: the pomodoro
  duration passes the check, so the record is returned, not the defaults, with the negative
  duration in it.
\<close>

theorem loaders_counterexample:
  "duration (getSettings 0 1 (Parsed (JObj [(''timerDurations'',
       JObj [(''pomodoro'', JNum 25), (''shortBreak'', JNum (- 3)), (''longBreak'', JNum 15)])]))) ''shortBreak''
     = Some (JNum (- 3))
   \<and> getSettings 0 1 (Parsed (JObj [(''timerDurations'',
       JObj [(''pomodoro'', JNum 25), (''shortBreak'', JNum (- 3)), (''longBreak'', JNum 15)])]))
     \<noteq> DEFAULT_SETTINGS 0"
  by (simp add: getSettings_def getSettings_try_def withDefaults_def DEFAULT_SETTINGS_def)

section \<open>Properties of the component\<close>

subsection \<open>Effects that run without a change of mode or of settings\<close>

text \<open>
  As long as neither \<open>timerMode\<close> nor \<open>settings\<close> changed and the component is mounted, the
  effects that run set no state but \<open>timerStates\<close>: the rounds of effects and re-renders end, and
  they leave \<open>timeRemaining\<close>, \<open>isActive\<close>, \<open>completedPomodoros\<close> and \<open>timerMode\<close> as
  the handler or callback set them.
\<close>

lemma sameView_refl: "sameView c c"
  by (simp add: sameView_def)

lemma sameView_trans: "sameView a b \<Longrightarrow> sameView b c \<Longrightarrow> sameView a c"
  by (simp add: sameView_def)

lemma updateTimerState_sameView: "sameView c (updateTimerState now m t a n ts c)"
  by (simp add: sameView_def updateTimerState_def Let_def split: stored.splits)

lemma applyAction_neutral: "neutral a \<Longrightarrow> sameView c (applyAction now c a)"
  using updateTimerState_sameView
  by (cases a) (auto simp: sameView_def split: option.splits)

lemma perform_neutral: "list_all neutral acts \<Longrightarrow> sameView c (perform now acts c)"
proof (induction acts arbitrary: c)
  case Nil
  then show ?case by (simp add: perform_def sameView_refl)
next
  case (Cons a acts)
  then have 1: "sameView c (applyAction now c a)" by (simp add: applyAction_neutral)
  from Cons have 2: "sameView (applyAction now c a) (perform now acts (applyAction now c a))" by simp
  from sameView_trans[OF 1 2] show ?case by (simp add: perform_def)
qed

lemma getSaved_neutral: "list_all neutral (snd (getSavedTimerState m cfg now st))"
  by (simp add: getSavedTimerState_def Let_def split: stored.splits option.splits)

lemma render_sameView: "sameView c (render now c)"
  by (simp add: render_def perform_neutral getSaved_neutral)

lemma effects_neutral:
  assumes "timerMode v = timerMode prev"
  shows "\<exists>acts. effects False tsNew False prev v = Some acts \<and> list_all neutral acts"
  using assms
  by (simp add: effects_def Let_def saveWhileActive_def saveOnActiveChange_def intervalEffect_def)

lemma commit_sameView:
  "commit n False now prev tsNew False v = Inr c' \<Longrightarrow> timerMode v = timerMode prev \<Longrightarrow> sameView v c'"
proof (induction n arbitrary: prev tsNew v)
  case 0
  then show ?case by simp
next
  case (Suc n)
  from effects_neutral[OF Suc.prems(2), of tsNew] obtain acts where
    e: "effects False tsNew False prev v = Some acts" and nt: "list_all neutral acts" by blast
  let ?c = "perform now acts v"
  have sv: "sameView v ?c" using nt by (rule perform_neutral)
  show ?case
  proof (cases "list_ex isSetTimerStates acts")
    case True
    with Suc.prems(1) e have r: "commit n False now v True False (render now ?c) = Inr c'"
      by (simp add: Let_def)
    have "sameView v (render now ?c)" using sv render_sameView sameView_trans by blast
    moreover from this have "timerMode (render now ?c) = timerMode v" by (simp add: sameView_def)
    ultimately show ?thesis using Suc.IH[OF r] sameView_trans by blast
  next
    case False
    with Suc.prems(1) e sv have "c' = ?c"
      by (simp add: Let_def sameView_def)
    with sv show ?thesis by simp
  qed
qed

lemma rerender_sameView:
  "rerender now tsNew False prev c = Inr c' \<Longrightarrow> timerMode c = timerMode prev \<Longrightarrow> sameView c c'"
  unfolding rerender_def
  using commit_sameView[of 8 now prev tsNew "render now c" c'] render_sameView[of c now] sameView_trans
  by (auto simp: sameView_def)

lemma perform_append: "perform now (xs @ ys) c = perform now ys (perform now xs c)"
  by (simp add: perform_def)

lemma quiet_commit:
  assumes "timerMode v = timerMode prev" "timeRemaining v = timeRemaining prev"
    "isActive v = isActive prev" "completedPomodoros v = completedPomodoros prev"
  shows "\<exists>c'. commit (Suc n) False now prev tsNew False v = Inr c'"
proof -
  have e: "effects False tsNew False prev v = Some (if tsNew then saveWhileActive v else [])"
    using assms by (simp add: effects_def Let_def)
  have n: "list_all neutral (if tsNew then saveWhileActive v else [])"
    by (simp add: saveWhileActive_def)
  have x: "\<not> list_ex isSetTimerStates (if tsNew then saveWhileActive v else [])"
    by (simp add: saveWhileActive_def)
  from perform_neutral[OF n, of v now] e x show ?thesis
    by (simp add: Let_def sameView_def)
qed

lemma neutral_commit_returns:
  assumes "timerMode v = timerMode prev"
  shows "\<exists>c'. commit (Suc (Suc n)) False now prev tsNew False v = Inr c'"
proof -
  from effects_neutral[OF assms, of tsNew] obtain acts where
    e: "effects False tsNew False prev v = Some acts" and nt: "list_all neutral acts" by blast
  let ?c = "perform now acts v"
  have sv: "sameView v ?c" using nt by (rule perform_neutral)
  show ?thesis
  proof (cases "list_ex isSetTimerStates acts")
    case True
    have "sameView v (render now ?c)" using sv render_sameView sameView_trans by blast
    then have "timerMode (render now ?c) = timerMode v" "timeRemaining (render now ?c) = timeRemaining v"
      "isActive (render now ?c) = isActive v" "completedPomodoros (render now ?c) = completedPomodoros v"
      by (simp_all add: sameView_def)
    from quiet_commit[OF this, of n now True] obtain c' where
      "commit (Suc n) False now v True False (render now ?c) = Inr c'" by blast
    with e True show ?thesis by (simp add: Let_def)
  next
    case False
    with e sv show ?thesis by (simp add: Let_def sameView_def)
  qed
qed

lemma rerender_returns:
  "timerMode c = timerMode prev \<Longrightarrow> \<exists>c'. rerender now tsNew False prev c = Inr c'"
  unfolding rerender_def
  using neutral_commit_returns[of "render now c" prev 6 now tsNew] render_sameView[of c now]
  by (simp add: sameView_def eval_nat_numeral)

lemma step_Toggle_returns: "\<exists>c'. step c (Toggle now) = Inr c'"
  using rerender_returns[of "toggleTimer c" c now False] by (simp add: toggleTimer_def)

lemma step_Tick_returns:
  assumes "interval c = Some (due, cl)" "due \<le> now" "1 < timeRemaining c"
  shows "\<exists>c'. step c (Tick now) = Inr c'"
proof -
  from assms(3) have tc: "tickCallback cl (timeRemaining c) = [SetTimeRemaining (timeRemaining c - 1)]"
    by (simp add: tickCallback_def)
  have "timerMode (perform now [SetTimeRemaining (timeRemaining c - 1)] (c\<lparr>interval := Some (due + 1000, cl)\<rparr>))
          = timerMode c"
    by (simp add: perform_def)
  from rerender_returns[OF this, of now False] assms tc show ?thesis by simp
qed

text \<open>
  One round of effects spelled out, and what the rounds do to a paused component: it stays
  paused and no interval is registered afterwards (an interval left over from the previous
  render is cleared by the cleanup of the interval effect).
\<close>

lemma commit_round:
  assumes "effects mnt tsNew stNew prev v = Some acts" and "list_ex isSetTimerStates acts"
  shows "commit (Suc n) mnt now prev tsNew stNew v
           = commit n False now v True False (render now (perform now acts v))"
  using assms by (simp add: Let_def)

lemma eight: "(8::nat) = Suc 7"
  by simp

lemma commit_Inr_effects:
  "commit (Suc n) mnt now prev tsNew stNew v = Inr c' \<Longrightarrow> \<exists>acts. effects mnt tsNew stNew prev v = Some acts"
  by (cases "effects mnt tsNew stNew prev v") simp_all

lemma effects_Some_settings:
  "effects mnt tsNew stNew prev v = Some acts \<Longrightarrow> mnt \<or> stNew \<Longrightarrow> \<exists>e5. onSettingsChange v = Some e5"
  by (cases "onSettingsChange v") (auto simp: effects_def Let_def)

lemma nextModeAfter_differs: "nextModeAfter m n cfg \<noteq> m"
  by (simp add: nextModeAfter_def Let_def)

lemma render_view:
  "timerMode (render now c) = timerMode c" "timeRemaining (render now c) = timeRemaining c"
  "isActive (render now c) = isActive c" "completedPomodoros (render now c) = completedPomodoros c"
  "settings (render now c) = settings c"
  using render_sameView[of c now] by (simp_all add: sameView_def)

lemma render_timerStates: "timerStates (render now c) = timerStates c"
proof -
  have "\<And>acts. list_all (\<lambda>a. a = OnPomodoroComplete \<or> (\<exists>m. a = SetTimerModeLater m)) acts
          \<Longrightarrow> timerStates (foldl (applyAction now) c acts) = timerStates c"
  proof -
    fix acts
    show "list_all (\<lambda>a. a = OnPomodoroComplete \<or> (\<exists>m. a = SetTimerModeLater m)) acts
          \<Longrightarrow> timerStates (foldl (applyAction now) c acts) = timerStates c"
      by (induction acts arbitrary: c) auto
  qed
  moreover have "list_all (\<lambda>a. a = OnPomodoroComplete \<or> (\<exists>m. a = SetTimerModeLater m))
      (snd (getSavedTimerState (timerMode c) (settings c) now (storage c)))"
    by (simp add: getSavedTimerState_def Let_def split: stored.splits option.splits)
  ultimately show ?thesis by (simp add: render_def perform_def)
qed

lemma updateTimerState_fields:
  "interval (updateTimerState now m t a n ts c) = interval c"
  "timerStates (updateTimerState now m t a n ts c) = timerStates c"
  "timeRemaining (updateTimerState now m t a n ts c) = timeRemaining c"
  "isActive (updateTimerState now m t a n ts c) = isActive c"
  "completedPomodoros (updateTimerState now m t a n ts c) = completedPomodoros c"
  "timerMode (updateTimerState now m t a n ts c) = timerMode c"
  "settings (updateTimerState now m t a n ts c) = settings c"
  by (simp_all add: updateTimerState_def Let_def split: stored.splits)

lemma applyAction_quiet:
  "quietAct a \<Longrightarrow> interval c = None \<Longrightarrow> interval (applyAction now c a) = None"
  by (cases a) (auto simp: updateTimerState_def Let_def split: stored.splits)

lemma perform_quiet:
  "list_all quietAct acts \<Longrightarrow> interval c = None \<Longrightarrow> interval (perform now acts c) = None"
  unfolding perform_def
  by (induction acts arbitrary: c) (auto simp: applyAction_quiet)

lemma quiet_neutral: "list_all quietAct acts \<Longrightarrow> list_all neutral acts"
  by (induction acts) (auto elim: quietAct.elims)

lemma perform_clear_first:
  "list_all quietAct acts \<Longrightarrow> interval (perform now (ClearInterval # acts) c) = None"
  using perform_quiet[of acts "c\<lparr>interval := None\<rparr>" now]
  by (simp add: perform_def)

lemma render_interval: "interval (render now c) = interval c"
proof -
  have "\<And>acts. list_all (\<lambda>a. a = OnPomodoroComplete \<or> (\<exists>m. a = SetTimerModeLater m)) acts
          \<Longrightarrow> interval (perform now acts c) = interval c"
    unfolding perform_def
  proof -
    fix acts
    show "list_all (\<lambda>a. a = OnPomodoroComplete \<or> (\<exists>m. a = SetTimerModeLater m)) acts
          \<Longrightarrow> interval (foldl (applyAction now) c acts) = interval c"
      by (induction acts arbitrary: c) auto
  qed
  moreover have "list_all (\<lambda>a. a = OnPomodoroComplete \<or> (\<exists>m. a = SetTimerModeLater m))
      (snd (getSavedTimerState (timerMode c) (settings c) now (storage c)))"
    by (simp add: getSavedTimerState_def Let_def split: stored.splits option.splits)
  ultimately show ?thesis by (simp add: render_def)
qed

lemma effects_paused:
  assumes "timerMode v = timerMode prev" and "\<not> isActive v"
  shows "\<exists>acts. effects False tsNew False prev v = Some acts \<and> list_all quietAct acts
           \<and> (isActive prev \<longrightarrow> (\<exists>rest. acts = ClearInterval # rest \<and> list_all quietAct rest))"
  using assms
  by (simp add: effects_def Let_def saveWhileActive_def saveOnActiveChange_def intervalEffect_def)

lemma commit_paused:
  assumes "commit n False now prev tsNew False v = Inr c'"
      and "timerMode v = timerMode prev" and "\<not> isActive v"
      and "interval v = None \<or> isActive prev"
  shows "interval c' = None \<and> \<not> isActive c'"
  using assms
proof (induction n arbitrary: prev tsNew v)
  case 0
  then show ?case by simp
next
  case (Suc n)
  from effects_paused[OF Suc.prems(2,3), of tsNew] obtain acts where
    e: "effects False tsNew False prev v = Some acts" and q: "list_all quietAct acts"
    and f: "isActive prev \<longrightarrow> (\<exists>rest. acts = ClearInterval # rest \<and> list_all quietAct rest)"
    by blast
  let ?c = "perform now acts v"
  have sv: "sameView v ?c" using q quiet_neutral perform_neutral by blast
  have iv: "interval ?c = None"
  proof (cases "isActive prev")
    case True
    with f obtain rest where "acts = ClearInterval # rest" "list_all quietAct rest" by blast
    then show ?thesis by (simp add: perform_clear_first)
  next
    case False
    with Suc.prems(4) q show ?thesis by (simp add: perform_quiet)
  qed
  show ?case
  proof (cases "list_ex isSetTimerStates acts")
    case True
    with Suc.prems(1) e have r: "commit n False now v True False (render now ?c) = Inr c'"
      by (simp add: Let_def)
    have "sameView v (render now ?c)" using sv render_sameView sameView_trans by blast
    then have a: "timerMode (render now ?c) = timerMode v" "\<not> isActive (render now ?c)"
      using Suc.prems(3) by (simp_all add: sameView_def)
    have b: "interval (render now ?c) = None \<or> isActive v" using iv by (simp add: render_interval)
    from Suc.IH[OF r a b] show ?thesis .
  next
    case False
    with Suc.prems(1) e sv have "c' = ?c"
      by (simp add: Let_def sameView_def)
    with sv iv Suc.prems(3) show ?thesis by (simp add: sameView_def)
  qed
qed

text \<open>
  Without a change of mode the rounds set no slot of \<open>timerStates\<close> but the active mode's.
\<close>

lemma effects_other_slots:
  assumes "timerMode v = timerMode prev" and "k \<noteq> timerMode v"
  shows "\<exists>acts. effects False tsNew False prev v = Some acts
           \<and> timerStates (perform now acts v) k = timerStates v k"
  using assms
  by (auto simp: effects_def Let_def saveWhileActive_def saveOnActiveChange_def intervalEffect_def
        perform_def updateTimerState_fields split: option.splits)

lemma commit_other_slots:
  assumes "commit n False now prev tsNew False v = Inr c'"
      and "timerMode v = timerMode prev" and "k \<noteq> timerMode v"
  shows "timerStates c' k = timerStates v k"
  using assms
proof (induction n arbitrary: prev tsNew v)
  case 0
  then show ?case by simp
next
  case (Suc n)
  from effects_other_slots[OF Suc.prems(2,3), of tsNew now] obtain acts where
    e: "effects False tsNew False prev v = Some acts"
    and k: "timerStates (perform now acts v) k = timerStates v k" by blast
  from effects_neutral[OF Suc.prems(2), of tsNew] e have nt: "list_all neutral acts" by simp
  let ?c = "perform now acts v"
  have sv: "sameView v ?c" using nt by (rule perform_neutral)
  show ?case
  proof (cases "list_ex isSetTimerStates acts")
    case True
    with Suc.prems(1) e have r: "commit n False now v True False (render now ?c) = Inr c'"
      by (simp add: Let_def)
    have a: "timerMode (render now ?c) = timerMode v" using sv by (simp add: render_view sameView_def)
    from Suc.IH[OF r a] Suc.prems(3) a k show ?thesis by (simp add: render_timerStates)
  next
    case False
    with Suc.prems(1) e sv have "c' = ?c"
      by (simp add: Let_def sameView_def)
    with k show ?thesis by simp
  qed
qed

subsection \<open>Start, Pause and the interval: the remaining time is a counter\<close>

lemma step_Toggle_view:
  assumes "step c (Toggle now) = Inr c'"
  shows "timeRemaining c' = timeRemaining c \<and> isActive c' = (\<not> isActive c)"
  using rerender_sameView[of now False c "toggleTimer c" c'] assms
  by (simp add: sameView_def toggleTimer_def)

lemma step_Tick_view:
  assumes "step c (Tick now) = Inr c'" and "1 < timeRemaining c"
  shows "timeRemaining c' = timeRemaining c - 1 \<and> isActive c' = isActive c"
proof -
  from assms(1) obtain due cl where i: "interval c = Some (due, cl)"
    by (cases "interval c") auto
  let ?c1 = "perform now (tickCallback cl (timeRemaining c)) (c\<lparr>interval := Some (due + 1000, cl)\<rparr>)"
  from assms(2) have tc: "tickCallback cl (timeRemaining c) = [SetTimeRemaining (timeRemaining c - 1)]"
    by (simp add: tickCallback_def)
  from assms(1) i tc have r: "rerender now False False c ?c1 = Inr c'"
    by (simp split: if_splits)
  have c1: "timerMode ?c1 = timerMode c" "timeRemaining ?c1 = timeRemaining c - 1" "isActive ?c1 = isActive c"
    by (simp_all add: tc perform_def)
  from rerender_sameView[OF r c1(1)] c1 show ?thesis
    by (simp add: sameView_def)
qed

lemma exec_Inl: "exec (Inl e) evs = Inl e"
  by (cases evs) simp_all

text \<open>
  Claim C2, as the code has it. From any state of the component, after any sequence of clicks
  on Start/Pause and firings of the interval that the component accepts, with fewer firings than
  seconds remaining at the start, the remaining time is the one at the start minus the number
  of firings, and the timer runs or not according to the parity of the clicks. The times at
  which the events happen do not enter: the remaining time is a counter that the interval's
  callback decrements, not a difference of wall-clock timestamps.
\<close>

theorem remaining_counts_ticks:
  assumes "exec (Inr c) evs = Inr c'"
      and "list_all (\<lambda>ev. isToggle ev \<or> isTick ev) evs"
      and "int (length (filter isTick evs)) < timeRemaining c"
  shows "timeRemaining c' = timeRemaining c - int (length (filter isTick evs))
       \<and> isActive c' = (if even (length (filter isToggle evs)) then isActive c else \<not> isActive c)"
  using assms
proof (induction evs arbitrary: c)
  case Nil
  then show ?case by simp
next
  case (Cons ev evs)
  from Cons.prems(1) obtain c1 where s: "step c ev = Inr c1" and r: "exec (Inr c1) evs = Inr c'"
    by (cases "step c ev") (simp_all add: exec_Inl)
  from Cons.prems(2) consider (toggle) now where "ev = Toggle now" | (tick) now where "ev = Tick now"
    by (cases ev) auto
  then show ?case
  proof cases
    case toggle
    with s step_Toggle_view[of c now c1] have v: "timeRemaining c1 = timeRemaining c" "isActive c1 = (\<not> isActive c)"
      by simp_all
    from Cons.IH[OF r] Cons.prems(2,3) v toggle show ?thesis by auto
  next
    case tick
    from Cons.prems(3) tick have "1 < timeRemaining c" by simp
    with s tick step_Tick_view[of c now c1] have v: "timeRemaining c1 = timeRemaining c - 1" "isActive c1 = isActive c"
      by simp_all
    from Cons.IH[OF r] Cons.prems(2,3) v tick show ?thesis by auto
  qed
qed

text \<open>
  Two runs of a second and a half each, from a paused pomodoro with 1500 seconds: one firing in
  each, and the remaining time is 1498.
\<close>

theorem remaining_counts_ticks_witness:
  "map_sum id (\<lambda>c. (timeRemaining c, isActive c))
      (exec (Inr (focusAtOne\<lparr>timeRemaining := 1500, isActive := False, interval := None\<rparr>))
         [Toggle 1000, Tick 2000, Toggle 2500, Toggle 3000, Tick 4000, Toggle 4500])
     = Inr (1498, False)"
proof -
  let ?c = "focusAtOne\<lparr>timeRemaining := 1500, isActive := False, interval := None\<rparr>"
  let ?evs = "[Toggle 1000, Tick 2000, Toggle 2500, Toggle 3000, Tick 4000, Toggle 4500]"
  have "\<not> isl (exec (Inr ?c) ?evs)" by code_simp
  then obtain c' where e: "exec (Inr ?c) ?evs = Inr c'" by (cases "exec (Inr ?c) ?evs") auto
  have l: "list_all (\<lambda>ev. isToggle ev \<or> isTick ev) ?evs" by simp
  have n: "int (length (filter isTick ?evs)) < timeRemaining ?c" by (simp add: focusAtOne_def)
  from remaining_counts_ticks[OF e l n] e show ?thesis
    by (simp add: focusAtOne_def)
qed

text \<open>
  The claim as stated fails. The pomodoro is selected with 1500 seconds. Started at 1000 ms and
  paused at 2500 ms, started again at 3000 ms and paused at 4500 ms, it ran for 3000 ms of
  wall-clock time; the interval, armed for one second at each start, fired once in each run, and
  1498 seconds remain, not 1497. One run of the same 3000 ms leaves 1497.
\<close>

theorem pause_resume_counterexample:
  "map_sum id (\<lambda>c. (timeRemaining c, isActive c))
      (exec (mount 0 defaultSettings NoItem) [SelectMode 10 ''shortBreak'', SelectMode 20 ''pomodoro''])
     = Inr (1500, False)
   \<and> map_sum id (\<lambda>c. (timeRemaining c, isActive c))
      (exec (mount 0 defaultSettings NoItem) [SelectMode 10 ''shortBreak'', SelectMode 20 ''pomodoro'',
         Toggle 1000, Tick 2000, Toggle 2500, Toggle 3000, Tick 4000, Toggle 4500])
     = Inr (1498, False)
   \<and> map_sum id (\<lambda>c. (timeRemaining c, isActive c))
      (exec (mount 0 defaultSettings NoItem) [SelectMode 10 ''shortBreak'', SelectMode 20 ''pomodoro'',
         Toggle 1000, Tick 2000, Tick 3000, Tick 4000, Toggle 4000])
     = Inr (1497, False)
   \<and> (1498::int) \<noteq> 1500 - ((2500 - 1000) + (4500 - 3000)) div 1000"
  by code_simp

subsection \<open>The settings effect\<close>

lemma reconcile_bounds:
  "slot_isActive (reconcile cfg mode s) = slot_isActive s
   \<and> (slot_isActive s \<or> slot_timeRemaining s < getDuration mode cfg \<longrightarrow> 1 \<le> slot_timeRemaining (reconcile cfg mode s))
   \<and> (1 \<le> getDuration mode cfg \<longrightarrow>
        1 \<le> slot_timeRemaining (reconcile cfg mode s) \<and> slot_timeRemaining (reconcile cfg mode s) \<le> getDuration mode cfg)"
  by (auto simp: reconcile_def Let_def)

lemma onSettingsChange_timerStates:
  assumes "onSettingsChange v = Some acts"
  shows "\<exists>p s l. timerStates v ''pomodoro'' = Some p \<and> timerStates v ''shortBreak'' = Some s
           \<and> timerStates v ''longBreak'' = Some l
           \<and> timerStates (perform now acts v) =
               (timerStates v)(''pomodoro'' \<mapsto> reconcile (settings v) ''pomodoro'' p,
                               ''shortBreak'' \<mapsto> reconcile (settings v) ''shortBreak'' s,
                               ''longBreak'' \<mapsto> reconcile (settings v) ''longBreak'' l)
           \<and> timeRemaining (perform now acts v) = slot_timeRemaining (reconcile (settings v) ''longBreak'' l)
           \<and> isActive (perform now acts v) = isActive v"
  using assms
  by (auto simp: onSettingsChange_def Let_def perform_def updateTimerState_def
           split: option.splits stored.splits)

text \<open>
  Claim C1, as the code has it. When the settings effect runs, the slot of each of the three
  modes keeps its running flag, and its new remaining time is at least 1 whenever the slot is
  running or has less left than the configured duration, running or not (the floor is 1 in
  both cases, never 0); when the configured duration is at least one second the new remaining
  time lies between 1 and that duration. A slot has no duration field of its own. (How much of
  the elapsed time survives the edit is not part of this statement.)
\<close>

theorem reconciliation_floor_is_one:
  assumes "onSettingsChange v = Some acts"
      and "mode = ''pomodoro'' \<or> mode = ''shortBreak'' \<or> mode = ''longBreak''"
  shows "\<exists>s s'. timerStates v mode = Some s \<and> timerStates (perform now acts v) mode = Some s'
           \<and> slot_isActive s' = slot_isActive s
           \<and> (slot_isActive s \<or> slot_timeRemaining s < getDuration mode (settings v) \<longrightarrow> 1 \<le> slot_timeRemaining s')
           \<and> (1 \<le> getDuration mode (settings v) \<longrightarrow>
                 1 \<le> slot_timeRemaining s' \<and> slot_timeRemaining s' \<le> getDuration mode (settings v))"
proof -
  from onSettingsChange_timerStates[OF assms(1), of now] obtain p s l where
    h: "timerStates v ''pomodoro'' = Some p" "timerStates v ''shortBreak'' = Some s"
       "timerStates v ''longBreak'' = Some l"
       "timerStates (perform now acts v) =
               (timerStates v)(''pomodoro'' \<mapsto> reconcile (settings v) ''pomodoro'' p,
                               ''shortBreak'' \<mapsto> reconcile (settings v) ''shortBreak'' s,
                               ''longBreak'' \<mapsto> reconcile (settings v) ''longBreak'' l)"
    by blast
  from assms(2) show ?thesis
  proof (elim disjE)
    assume "mode = ''pomodoro''"
    with h reconcile_bounds[of "settings v" "''pomodoro''" p] show ?thesis by simp
  next
    assume "mode = ''shortBreak''"
    with h reconcile_bounds[of "settings v" "''shortBreak''" s] show ?thesis by simp
  next
    assume "mode = ''longBreak''"
    with h reconcile_bounds[of "settings v" "''longBreak''" l] show ?thesis by simp
  qed
qed

text \<open>
  A running pomodoro with 1193 seconds left, the pomodoro re-configured to 27 minutes: the slot
  is still running and its remaining time is within 1 and 1620.
\<close>

theorem reconciliation_floor_is_one_witness:
  "(case timerStates (perform 0
          (the (onSettingsChange (focusAtOne\<lparr>settings := defaultSettings\<lparr>pomodoro := 27\<rparr>,
                 timeRemaining := 1193,
                 timerStates := (freshTimerStates defaultSettings)(''pomodoro'' \<mapsto>
                    \<lparr>slot_timeRemaining = 1193, slot_isActive = True\<rparr>)\<rparr>)))
          (focusAtOne\<lparr>settings := defaultSettings\<lparr>pomodoro := 27\<rparr>,
                 timeRemaining := 1193,
                 timerStates := (freshTimerStates defaultSettings)(''pomodoro'' \<mapsto>
                    \<lparr>slot_timeRemaining = 1193, slot_isActive = True\<rparr>)\<rparr>)) ''pomodoro'' of
      None \<Rightarrow> False
    | Some s' \<Rightarrow> slot_isActive s' \<and> 1 \<le> slot_timeRemaining s' \<and> slot_timeRemaining s' \<le> 1620)
   \<and> getDuration ''pomodoro'' (defaultSettings\<lparr>pomodoro := 27\<rparr>) = 1620"
proof -
  let ?v = "focusAtOne\<lparr>settings := defaultSettings\<lparr>pomodoro := 27\<rparr>,
                 timeRemaining := 1193,
                 timerStates := (freshTimerStates defaultSettings)(''pomodoro'' \<mapsto>
                    \<lparr>slot_timeRemaining = 1193, slot_isActive = True\<rparr>)\<rparr>"
  have e: "onSettingsChange ?v = Some (the (onSettingsChange ?v))"
    by (simp add: onSettingsChange_def focusAtOne_def freshTimerStates_def Let_def)
  have s: "timerStates ?v ''pomodoro'' = Some \<lparr>slot_timeRemaining = 1193, slot_isActive = True\<rparr>"
    by (simp add: focusAtOne_def)
  have d: "getDuration ''pomodoro'' (settings ?v) = 1620"
    by (simp add: getDuration_def defaultSettings_def focusAtOne_def)
  have d': "getDuration ''pomodoro'' (defaultSettings\<lparr>pomodoro := 27\<rparr>) = 1620"
    by (simp add: getDuration_def defaultSettings_def)
  from reconciliation_floor_is_one [OF e, of "''pomodoro''" 0] s d d' show ?thesis
    by auto
qed

text \<open>
  The claim as stated fails. First its own example: a running pomodoro of 1500 seconds with 307
  elapsed (1193 left), re-configured to 1620 seconds, stays at 1193 where the claim says 1313,
  because the elapsed time is measured against the new duration. Second the floor: a paused
  pomodoro with 1 second left of 1500 (1499 elapsed), re-configured to 600 seconds, stays at 1
  where the claim says max(0, 600 - 1499) = 0.
\<close>

theorem reconciliation_counterexample:
  "reconcile \<lparr>pomodoro = 27, shortBreak = 5, longBreak = 15, longBreakInterval = 4\<rparr> ''pomodoro''
       \<lparr>slot_timeRemaining = 1193, slot_isActive = True\<rparr>
     = \<lparr>slot_timeRemaining = 1193, slot_isActive = True\<rparr>
   \<and> reconcile \<lparr>pomodoro = 10, shortBreak = 5, longBreak = 15, longBreakInterval = 4\<rparr> ''pomodoro''
       \<lparr>slot_timeRemaining = 1, slot_isActive = False\<rparr>
     = \<lparr>slot_timeRemaining = 1, slot_isActive = False\<rparr>"
  by (simp add: reconcile_def getDuration_def)

text \<open>
  What a change of settings does to the timer on display, whatever the state and whichever
  duration was edited: the remaining time becomes the one just computed for the long break's
  slot, and the running flag and the mode stay.
\<close>

lemma onSettingsChange_quiet:
  assumes "onSettingsChange v = Some e5"
  shows "\<exists>p s l ts. timerStates v ''longBreak'' = Some l
           \<and> e5 = [SetTimeRemaining p, SetTimeRemaining s,
                   SetTimeRemaining (slot_timeRemaining (reconcile (settings v) ''longBreak'' l)),
                   SetTimerStates ts,
                   UpdateTimerState (timerMode v) (timeRemaining v) (isActive v) (completedPomodoros v) ts]"
  using assms by (auto simp: onSettingsChange_def Let_def split: option.splits)

lemma settings_change_sets_long_break_time:
  assumes s: "step c (ChangeSettings now cfg) = Inr c'"
  shows "\<exists>l. timerStates c ''longBreak'' = Some l
           \<and> timeRemaining c' = slot_timeRemaining (reconcile cfg ''longBreak'' l)
           \<and> isActive c' = isActive c \<and> timerMode c' = timerMode c"
proof -
  let ?v = "render now (c\<lparr>settings := cfg\<rparr>)"
  from s have r: "commit 8 False now c False True ?v = Inr c'"
    by (simp add: rerender_def)
  have v: "timerMode ?v = timerMode c" "timeRemaining ?v = timeRemaining c" "isActive ?v = isActive c"
    "completedPomodoros ?v = completedPomodoros c" "settings ?v = cfg" "timerStates ?v = timerStates c"
    by (simp_all add: render_view render_timerStates)
  from r have "commit (Suc 7) False now c False True ?v = Inr c'" by (simp only: eight)
  then obtain acts0 where "effects False False True c ?v = Some acts0"
    using commit_Inr_effects by blast
  then obtain e5 where o: "onSettingsChange ?v = Some e5"
    using effects_Some_settings by blast
  have e: "effects False False True c ?v = Some (ClearInterval # intervalEffect ?v @ e5)"
    using v o by (simp add: effects_def Let_def)
  from onSettingsChange_quiet[OF o] v obtain p sb l ts where
    l: "timerStates c ''longBreak'' = Some l"
    and e5: "e5 = [SetTimeRemaining p, SetTimeRemaining sb,
                   SetTimeRemaining (slot_timeRemaining (reconcile cfg ''longBreak'' l)),
                   SetTimerStates ts,
                   UpdateTimerState (timerMode ?v) (timeRemaining ?v) (isActive ?v) (completedPomodoros ?v) ts]"
    by auto
  let ?acts = "ClearInterval # intervalEffect ?v @ e5"
  let ?c2 = "perform now ?acts ?v"
  have c2: "timeRemaining ?c2 = slot_timeRemaining (reconcile cfg ''longBreak'' l)"
    "isActive ?c2 = isActive c" "timerMode ?c2 = timerMode c"
    using v by (auto simp: e5 perform_def intervalEffect_def updateTimerState_fields split: option.splits)
  have tset: "list_ex isSetTimerStates ?acts" by (simp add: e5)
  from r commit_round[OF e tset, of 7 now] have r2: "commit 7 False now ?v True False (render now ?c2) = Inr c'"
    by (simp only: eight)
  have a: "timerMode (render now ?c2) = timerMode ?v" using c2(3) v(1) by (simp add: render_view)
  from commit_sameView[OF r2 a] c2 l show ?thesis
    by (simp add: sameView_def render_view)
qed

text \<open>
  Claim C3 fails on the code. A pomodoro of 1500 seconds runs for two seconds (1498 left); the
  short break is then re-configured from 5 to 10 minutes. The pomodoro's duration did not
  change, yet its remaining time becomes 900, the long break's: the effect calls
  \<^verbatim>\<open>setTimeRemaining\<close> for every mode, the long break last.
\<close>

theorem settings_edit_overwrites_running_focus:
  "map_sum id (\<lambda>c. (timerMode c, timeRemaining c, isActive c))
      (exec (mount 0 defaultSettings NoItem) [SelectMode 10 ''shortBreak'', SelectMode 20 ''pomodoro'',
         Toggle 1000, Tick 2000, Tick 3000])
     = Inr (''pomodoro'', 1498, True)
   \<and> map_sum id (\<lambda>c. (timerMode c, timeRemaining c, isActive c))
      (exec (mount 0 defaultSettings NoItem) [SelectMode 10 ''shortBreak'', SelectMode 20 ''pomodoro'',
         Toggle 1000, Tick 2000, Tick 3000, ChangeSettings 3500 (defaultSettings\<lparr>shortBreak := 10\<rparr>)])
     = Inr (''pomodoro'', 900, True)"
  by code_simp

subsection \<open>Switching modes\<close>

text \<open>
  A click on the button of another mode, from any state: afterwards the component is paused
  with no interval registered, the new mode is selected, and the remaining time is the one
  stored in the new mode's slot (its full duration if there is no slot). The slot of the mode
  that was left is untouched: it keeps the remaining time and the running flag recorded at the
  last Start or Pause. A click on the button of the mode already selected changes nothing
  (the component only renders again).
\<close>

lemma switch_mode_pauses:
  assumes s: "step c (SelectMode now m) = Inr c'" and d: "m \<noteq> timerMode c"
  shows "\<not> isActive c' \<and> interval c' = None \<and> timerMode c' = m
       \<and> timeRemaining c' = (case timerStates c m of
                               Some sl \<Rightarrow> slot_timeRemaining sl
                             | None \<Rightarrow> getDuration m (settings c))
       \<and> timerStates c' (timerMode c) = timerStates c (timerMode c)"
proof -
  let ?v = "render now (c\<lparr>timerMode := m\<rparr>)"
  from s have r: "commit 8 False now c False False ?v = Inr c'"
    by (simp add: rerender_def)
  have v: "timerMode ?v = m" "timeRemaining ?v = timeRemaining c" "isActive ?v = isActive c"
    "completedPomodoros ?v = completedPomodoros c" "settings ?v = settings c"
    "timerStates ?v = timerStates c"
    by (simp_all add: render_view render_timerStates)
  define acts where "acts = ClearInterval # saveWhileActive ?v @ onTimerModeChange ?v @ intervalEffect ?v"
  have e: "effects False False False c ?v = Some acts"
    using v d by (simp add: effects_def Let_def acts_def)
  let ?c2 = "perform now acts ?v"
  have c2: "\<not> isActive ?c2" "interval ?c2 = None \<or> isActive ?v" "timerMode ?c2 = m"
    "timeRemaining ?c2 = (case timerStates c m of
                               Some sl \<Rightarrow> slot_timeRemaining sl
                             | None \<Rightarrow> getDuration m (settings c))"
    "timerStates ?c2 (timerMode c) = timerStates c (timerMode c)"
    using v d
    by (auto simp: acts_def perform_def saveWhileActive_def onTimerModeChange_def intervalEffect_def
          Let_def updateTimerState_fields split: option.splits)
  have tset: "list_ex isSetTimerStates acts"
    by (auto simp: acts_def onTimerModeChange_def Let_def split: option.splits)
  from r commit_round[OF e tset, of 7 now] have r2: "commit 7 False now ?v True False (render now ?c2) = Inr c'"
    by (simp only: eight)
  have a: "timerMode (render now ?c2) = timerMode ?v" using c2(3) v(1) by (simp add: render_view)
  have b: "\<not> isActive (render now ?c2)" using c2(1) by (simp add: render_view)
  have g: "interval (render now ?c2) = None \<or> isActive ?v" using c2(2) by (simp add: render_interval)
  have k: "timerMode c \<noteq> timerMode (render now ?c2)" using d a v(1) by simp
  from commit_paused[OF r2 a b g] commit_sameView[OF r2 a] commit_other_slots[OF r2 a k] c2 show ?thesis
    by (simp add: sameView_def render_view render_timerStates)
qed

lemma commit_no_effects:
  assumes "effects mnt tsNew stNew prev v = Some []"
  shows "commit (Suc n) mnt now prev tsNew stNew v = Inr v"
  using assms by (simp add: perform_def Let_def)

lemma select_same_mode_changes_nothing:
  assumes "step c (SelectMode now (timerMode c)) = Inr c'"
  shows "c' = render now c"
proof -
  have "c\<lparr>timerMode := timerMode c\<rparr> = c" by simp
  with assms have r: "commit 8 False now c False False (render now c) = Inr c'"
    by (simp add: rerender_def)
  have e: "effects False False False c (render now c) = Some []"
    by (simp add: effects_def Let_def render_view)
  from r commit_no_effects[OF e, of 7 now] show ?thesis by (simp only: eight) simp
qed

text \<open>
  Claim C4 fails on the code. After the page is loaded, Start, then a click on Short Break: the
  timer shown is paused, but the pomodoro's slot still has \<^verbatim>\<open>isActive\<close> true, because the
  effect that records \<^verbatim>\<open>isActive\<close> in the slots only runs once \<^verbatim>\<open>timerMode\<close> is already
  the new mode. Start again: two slots have \<^verbatim>\<open>isActive\<close> true, and one of them is not the
  active mode's.
\<close>

theorem two_slots_running_after_switch:
  "map_sum id (\<lambda>c. (timerMode c, isActive c, map_option slot_isActive (timerStates c ''pomodoro''),
                       map_option slot_isActive (timerStates c ''shortBreak'')))
      (exec (mount 0 defaultSettings NoItem) [Toggle 1000, SelectMode 1500 ''shortBreak''])
     = Inr (''shortBreak'', False, Some True, Some False)
   \<and> map_sum id (\<lambda>c. (timerMode c, isActive c, map_option slot_isActive (timerStates c ''pomodoro''),
                       map_option slot_isActive (timerStates c ''shortBreak'')))
      (exec (mount 0 defaultSettings NoItem) [Toggle 1000, SelectMode 1500 ''shortBreak'', Toggle 2000])
     = Inr (''shortBreak'', True, Some True, Some True)"
  by code_simp

text \<open>
  Claim C7 fails on the code. The pomodoro is selected with 1500 seconds, started, and the
  interval fires five times (1495 left). A click on Short Break and one on Pomodoro: the
  pomodoro is not running, and it has 1500 seconds left, not 1495. While the timer runs its
  remaining time is saved to \<^verbatim>\<open>localStorage\<close> only; the slot that the mode effect reads
  still holds the value recorded when Start was clicked.
\<close>

theorem switch_away_discards_progress:
  "map_sum id (\<lambda>c. (timerMode c, timeRemaining c, isActive c))
      (exec (mount 0 defaultSettings NoItem) [SelectMode 10 ''shortBreak'', SelectMode 20 ''pomodoro'',
         Toggle 1000, Tick 2000, Tick 3000, Tick 4000, Tick 5000, Tick 6000])
     = Inr (''pomodoro'', 1495, True)
   \<and> map_sum id (\<lambda>c. (timerMode c, timeRemaining c, isActive c))
      (exec (mount 0 defaultSettings NoItem) [SelectMode 10 ''shortBreak'', SelectMode 20 ''pomodoro'',
         Toggle 1000, Tick 2000, Tick 3000, Tick 4000, Tick 5000, Tick 6000,
         SelectMode 6500 ''shortBreak'', SelectMode 7000 ''pomodoro''])
     = Inr (''pomodoro'', 1500, False)"
  by code_simp

subsection \<open>Completion\<close>

text \<open>
  A firing that finds at most one second left, with the effects that follow: the component ends
  paused, with no interval registered, in the next mode, and a completed pomodoro is counted
  once.
\<close>

lemma completing_tick:
  assumes s: "step c (Tick now) = Inr c'"
      and i: "interval c = Some (due, cl)"
      and m: "c_timerMode cl = timerMode c"
      and t: "timeRemaining c \<le> 1"
  shows "\<not> isActive c' \<and> interval c' = None
       \<and> timerMode c' = nextModeAfter (timerMode c) (c_completedPomodoros cl) (c_settings cl)
       \<and> completedPomodoros c' = (if timerMode c = ''pomodoro'' then c_completedPomodoros cl + 1
                                   else completedPomodoros c)"
proof -
  let ?next = "nextModeAfter (timerMode c) (c_completedPomodoros cl) (c_settings cl)"
  let ?done = "if timerMode c = ''pomodoro'' then c_completedPomodoros cl + 1 else completedPomodoros c"
  let ?c1 = "perform now (tickCallback cl (timeRemaining c)) (c\<lparr>interval := Some (due + 1000, cl)\<rparr>)"
  let ?v = "render now ?c1"
  have c1: "timerMode ?c1 = ?next" "completedPomodoros ?c1 = ?done" "isActive ?c1 = isActive c"
    "timeRemaining ?c1 = 0" "interval ?c1 = None"
    using t m by (simp_all add: tickCallback_def perform_def)
  have ts: "list_ex isSetTimerStates (tickCallback cl (timeRemaining c))"
    using t by (simp add: tickCallback_def)
  from s i ts have r: "commit 8 False now c True False ?v = Inr c'"
    by (simp add: rerender_def split: if_splits)
  have v: "timerMode ?v = ?next" "completedPomodoros ?v = ?done" "isActive ?v = isActive c"
    "timeRemaining ?v = 0" "interval ?v = None"
    using c1 by (simp_all add: render_view render_interval)
  have dm: "timerMode ?v \<noteq> timerMode c" using v(1) nextModeAfter_differs by simp
  define acts where "acts = ClearInterval # saveWhileActive ?v @ onTimerModeChange ?v @ intervalEffect ?v"
  have e: "effects False True False c ?v = Some acts"
    using dm v(3) by (simp add: effects_def Let_def acts_def)
  let ?c2 = "perform now acts ?v"
  have c2: "\<not> isActive ?c2" "interval ?c2 = None" "timerMode ?c2 = ?next" "completedPomodoros ?c2 = ?done"
    using v
    by (auto simp: acts_def perform_def saveWhileActive_def onTimerModeChange_def intervalEffect_def
          Let_def updateTimerState_fields split: option.splits)
  have tset: "list_ex isSetTimerStates acts"
    by (auto simp: acts_def onTimerModeChange_def Let_def split: option.splits)
  from r commit_round[OF e tset, of 7 now] have r2: "commit 7 False now ?v True False (render now ?c2) = Inr c'"
    by (simp only: eight)
  have a: "timerMode (render now ?c2) = timerMode ?v" using c2(3) v(1) by (simp add: render_view)
  have b: "\<not> isActive (render now ?c2)" using c2(1) by (simp add: render_view)
  have d: "interval (render now ?c2) = None \<or> isActive ?v" using c2(2) by (simp add: render_interval)
  from commit_paused[OF r2 a b d] commit_sameView[OF r2 a] c2 show ?thesis
    by (simp add: sameView_def render_view)
qed

lemma tickCallback_complete:
  assumes "prev \<le> 1"
  shows "(\<exists>rest. tickCallback cl prev = ClearInterval # rest)
       \<and> count_list (tickCallback cl prev) OnPomodoroComplete = (if c_timerMode cl = ''pomodoro'' then 1 else 0)
       \<and> (\<forall>b. SetIsActive b \<notin> set (tickCallback cl prev))
       \<and> interval (perform now (tickCallback cl prev) c) = None
       \<and> isActive (perform now (tickCallback cl prev) c) = isActive c
       \<and> notified (perform now (tickCallback cl prev) c)
            = notified c + (if c_timerMode cl = ''pomodoro'' then 1 else 0)"
  using assms by (simp add: tickCallback_def perform_def)

text \<open>
  Claim C5, as the code has it. When the interval's callback finds at most one second left it
  clears the interval before anything else, calls \<^verbatim>\<open>onPomodoroComplete\<close> once if the mode
  is the pomodoro and not at all otherwise, and never calls \<^verbatim>\<open>setIsActive\<close>: after it
  has run, no interval is registered and the running flag is as it was. With more than one
  second left it only decrements. Without a registered interval there is no callback to run;
  and once a completing firing and the effects after it are through (the captured mode being the
  current one), the component is paused with no interval, so that no further firing can
  complete anything before the next Start. (How often \<^verbatim>\<open>onPomodoroComplete\<close> is
  called in all by the renders around a completion is not part of this statement.)
\<close>

theorem tick_completion_clears_interval_first:
  "(prev \<le> 1 \<longrightarrow>
       (\<exists>rest. tickCallback cl prev = ClearInterval # rest)
       \<and> count_list (tickCallback cl prev) OnPomodoroComplete = (if c_timerMode cl = ''pomodoro'' then 1 else 0)
       \<and> (\<forall>b. SetIsActive b \<notin> set (tickCallback cl prev))
       \<and> interval (perform now (tickCallback cl prev) c) = None
       \<and> isActive (perform now (tickCallback cl prev) c) = isActive c
       \<and> notified (perform now (tickCallback cl prev) c)
            = notified c + (if c_timerMode cl = ''pomodoro'' then 1 else 0))
   \<and> (1 < prev \<longrightarrow> tickCallback cl prev = [SetTimeRemaining (prev - 1)])
   \<and> (interval c = None \<longrightarrow> step c (Tick now) = Inl NotEnabled)
   \<and> (\<forall>c' due. step c (Tick now) = Inr c' \<and> interval c = Some (due, cl)
          \<and> c_timerMode cl = timerMode c \<and> timeRemaining c \<le> 1
        \<longrightarrow> \<not> isActive c' \<and> interval c' = None \<and> step c' (Tick (now + 1000)) = Inl NotEnabled)"
proof -
  have 1: "prev \<le> 1 \<longrightarrow>
       (\<exists>rest. tickCallback cl prev = ClearInterval # rest)
       \<and> count_list (tickCallback cl prev) OnPomodoroComplete = (if c_timerMode cl = ''pomodoro'' then 1 else 0)
       \<and> (\<forall>b. SetIsActive b \<notin> set (tickCallback cl prev))
       \<and> interval (perform now (tickCallback cl prev) c) = None
       \<and> isActive (perform now (tickCallback cl prev) c) = isActive c
       \<and> notified (perform now (tickCallback cl prev) c)
            = notified c + (if c_timerMode cl = ''pomodoro'' then 1 else 0)"
    using tickCallback_complete[of prev cl now c] by blast
  have 2: "1 < prev \<longrightarrow> tickCallback cl prev = [SetTimeRemaining (prev - 1)]"
    by (simp add: tickCallback_def)
  have 3: "interval c = None \<longrightarrow> step c (Tick now) = Inl NotEnabled"
    by simp
  have 4: "\<forall>c' due. step c (Tick now) = Inr c' \<and> interval c = Some (due, cl)
          \<and> c_timerMode cl = timerMode c \<and> timeRemaining c \<le> 1
        \<longrightarrow> \<not> isActive c' \<and> interval c' = None \<and> step c' (Tick (now + 1000)) = Inl NotEnabled"
  proof (intro allI impI)
    fix c' due
    assume a: "step c (Tick now) = Inr c' \<and> interval c = Some (due, cl)
          \<and> c_timerMode cl = timerMode c \<and> timeRemaining c \<le> 1"
    then have "\<not> isActive c' \<and> interval c' = None"
      using completing_tick[of c now c' due cl] by blast
    then show "\<not> isActive c' \<and> interval c' = None \<and> step c' (Tick (now + 1000)) = Inl NotEnabled"
      by simp
  qed
  from 1 2 3 4 show ?thesis by blast
qed

theorem tick_completion_clears_interval_first_witness:
  "tickCallback (snd (the (interval focusAtOne))) 1 \<noteq> []
   \<and> hd (tickCallback (snd (the (interval focusAtOne))) 1) = ClearInterval
   \<and> count_list (tickCallback (snd (the (interval focusAtOne))) 1) OnPomodoroComplete = 1
   \<and> interval (perform 5000 (tickCallback (snd (the (interval focusAtOne))) 1) focusAtOne) = None
   \<and> step (focusAtOne\<lparr>interval := None\<rparr>) (Tick 5000) = Inl NotEnabled
   \<and> (\<exists>c'. step focusAtOne (Tick 5000) = Inr c' \<and> \<not> isActive c' \<and> interval c' = None
          \<and> step c' (Tick 6000) = Inl NotEnabled)"
proof -
  have e: "case step focusAtOne (Tick 5000) of Inr c' \<Rightarrow> True | Inl e \<Rightarrow> False"
    by code_simp
  then obtain c' where c': "step focusAtOne (Tick 5000) = Inr c'"
    by (cases "step focusAtOne (Tick 5000)") auto
  have i: "interval focusAtOne = Some (5000, snd (the (interval focusAtOne)))"
    "c_timerMode (snd (the (interval focusAtOne))) = timerMode focusAtOne"
    "timeRemaining focusAtOne \<le> 1"
    by (simp_all add: focusAtOne_def)
  have t: "\<forall>c' due. step focusAtOne (Tick 5000) = Inr c' \<and> interval focusAtOne = Some (due, snd (the (interval focusAtOne)))
          \<and> c_timerMode (snd (the (interval focusAtOne))) = timerMode focusAtOne \<and> timeRemaining focusAtOne \<le> 1
        \<longrightarrow> \<not> isActive c' \<and> interval c' = None \<and> step c' (Tick (5000 + 1000)) = Inl NotEnabled"
    using tick_completion_clears_interval_first [of 1 "snd (the (interval focusAtOne))" 5000 focusAtOne]
    by (elim conjE)
  from t c' i have 4: "\<not> isActive c' \<and> interval c' = None \<and> step c' (Tick (5000 + 1000)) = Inl NotEnabled"
    by blast
  have 5: "tickCallback (snd (the (interval focusAtOne))) 1 \<noteq> []
   \<and> hd (tickCallback (snd (the (interval focusAtOne))) 1) = ClearInterval
   \<and> count_list (tickCallback (snd (the (interval focusAtOne))) 1) OnPomodoroComplete = 1
   \<and> interval (perform 5000 (tickCallback (snd (the (interval focusAtOne))) 1) focusAtOne) = None
   \<and> step (focusAtOne\<lparr>interval := None\<rparr>) (Tick 5000) = Inl NotEnabled"
    by (simp add: focusAtOne_def tickCallback_def perform_def)
  from 4 c' 5 show ?thesis by simp
qed

text \<open>
  The claim as stated fails: a pomodoro running at its last second, when the callback has run
  to its end, has notified once and its running flag is still true.
\<close>

theorem tick_completion_counterexample:
  "isActive (perform 5000 (tickCallback (snd (the (interval focusAtOne))) (timeRemaining focusAtOne)) focusAtOne)
   \<and> notified (perform 5000 (tickCallback (snd (the (interval focusAtOne))) (timeRemaining focusAtOne)) focusAtOne) = 1
   \<and> notified focusAtOne = 0"
  by (simp add: focusAtOne_def tickCallback_def perform_def)

text \<open>
  The notification in the course of a whole completion: a pomodoro with 3 seconds left is
  started and the interval fires three times. The callback notifies once; the render that
  follows calls \<^verbatim>\<open>getSavedTimerState\<close>, which finds the item saved a second earlier
  (running, 1 second left), takes the timer for one that ended while the page was away, and
  notifies again.
\<close>

lemma focus_completion_notifies_twice:
  "map_sum id (\<lambda>c. (timerMode c, timeRemaining c, isActive c, completedPomodoros c, notified c))
      (exec (mount 0 defaultSettings shortFocus) [SelectMode 10 ''shortBreak'', SelectMode 20 ''pomodoro'',
         Toggle 1000, Tick 2000, Tick 3000])
     = Inr (''pomodoro'', 1, True, 0, 0)
   \<and> map_sum id (\<lambda>c. (timerMode c, timeRemaining c, isActive c, completedPomodoros c, notified c))
      (exec (mount 0 defaultSettings shortFocus) [SelectMode 10 ''shortBreak'', SelectMode 20 ''pomodoro'',
         Toggle 1000, Tick 2000, Tick 3000, Tick 4000])
     = Inr (''shortBreak'', 300, False, 1, 2)"
  by code_simp

subsection \<open>Reloading the page\<close>

text \<open>
  \<^verbatim>\<open>getSavedTimerState\<close> on the item of a timer that was running when it was saved, with
  a slot for its mode: the remaining time is recomputed from the stored timestamp and the
  current time; if nothing is left the pomodoro count and the next mode are computed, the
  notification is sent for a pomodoro and the returned state is not running; otherwise the
  returned state is running with the recomputed time.
\<close>

lemma getSavedTimerState_running:
  assumes "ts_isActive p" and "ts_activeTimestamp p = Some stamp" and "stamp \<noteq> 0"
      and "initTimerStates cfg p (ts_timerMode p) = Some sl"
  shows "(ts_timeRemaining p - (now - stamp) div 1000 \<le> 0 \<longrightarrow>
            \<not> ts_isActive (fst (getSavedTimerState m cfg now (Saved p)))
            \<and> ts_timerMode (fst (getSavedTimerState m cfg now (Saved p)))
                = nextModeAfter (ts_timerMode p) (ts_completedPomodoros p) cfg
            \<and> ts_completedPomodoros (fst (getSavedTimerState m cfg now (Saved p)))
                = (if ts_timerMode p = ''pomodoro'' then ts_completedPomodoros p + 1
                   else ts_completedPomodoros p)
            \<and> count_list (snd (getSavedTimerState m cfg now (Saved p))) OnPomodoroComplete
                = (if ts_timerMode p = ''pomodoro'' then 1 else 0))
       \<and> (0 < ts_timeRemaining p - (now - stamp) div 1000 \<longrightarrow>
            ts_isActive (fst (getSavedTimerState m cfg now (Saved p)))
            \<and> ts_timeRemaining (fst (getSavedTimerState m cfg now (Saved p)))
                = ts_timeRemaining p - (now - stamp) div 1000
            \<and> ts_activeTimestamp (fst (getSavedTimerState m cfg now (Saved p))) = Some now
            \<and> snd (getSavedTimerState m cfg now (Saved p)) = [])"
  using assms
  by (auto simp: getSavedTimerState_def Let_def)

text \<open>
  Whatever is stored, the component that has mounted is paused and has no interval registered:
  on mount the mode effect calls \<^verbatim>\<open>setIsActive(false)\<close>, and the interval effect of the
  next round clears what the first round may have registered.
\<close>

lemma mount_is_paused:
  assumes "mount now cfg st = Inr c'"
  shows "\<not> isActive c' \<and> interval c' = None"
proof -
  obtain c0 v where
    r: "commit 8 True now c0 False False v = Inr c'" and i0: "interval v = None"
    using assms
  proof -
    let ?appMode = "(case st of
                       Saved parsed \<Rightarrow> if ts_timerMode parsed \<noteq> [] then ts_timerMode parsed else ''pomodoro''
                     | other \<Rightarrow> ''pomodoro'')"
    let ?saved = "getSavedTimerState ?appMode cfg now st"
    let ?savedSlot = "(case ts_timerStates (fst ?saved) of Some m \<Rightarrow> m ?appMode | None \<Rightarrow> None)"
    let ?c0 = "\<lparr>timerMode = ?appMode, settings = cfg,
                timeRemaining = (case ?savedSlot of
                                   Some s \<Rightarrow> if slot_timeRemaining s \<noteq> 0 then slot_timeRemaining s
                                             else ts_timeRemaining (fst ?saved)
                                 | None \<Rightarrow> ts_timeRemaining (fst ?saved)),
                isActive = (case ?savedSlot of Some s \<Rightarrow> slot_isActive s | None \<Rightarrow> False),
                completedPomodoros = ts_completedPomodoros (fst ?saved),
                timerStates = (case ts_timerStates (fst ?saved) of Some m \<Rightarrow> m | None \<Rightarrow> freshTimerStates cfg),
                interval = None, storage = st, later = [], notified = 0, alarms = 0\<rparr>"
    have 1: "commit 8 True now ?c0 False False (perform now (snd ?saved) ?c0) = Inr c'"
      using assms by (simp add: mount_def Let_def)
    have "list_all quietAct (snd ?saved)"
      by (simp add: getSavedTimerState_def Let_def split: stored.splits option.splits)
    then have 2: "interval (perform now (snd ?saved) ?c0) = None"
      by (simp add: perform_quiet)
    from 1 2 show ?thesis using that by blast
  qed
  from r have "commit (Suc 7) True now c0 False False v = Inr c'" by (simp only: eight)
  then obtain acts0 where "effects True False False c0 v = Some acts0"
    using commit_Inr_effects by blast
  then obtain e5 where o: "onSettingsChange v = Some e5"
    using effects_Some_settings by blast
  define acts where "acts = saveWhileActive v @ saveOnActiveChange v @ onTimerModeChange v @ intervalEffect v @ e5"
  have e: "effects True False False c0 v = Some acts"
    using o by (simp add: effects_def Let_def acts_def)
  from onSettingsChange_quiet[OF o] obtain p sb l ts where
    e5: "e5 = [SetTimeRemaining p, SetTimeRemaining sb,
                   SetTimeRemaining (slot_timeRemaining (reconcile (settings v) ''longBreak'' l)),
                   SetTimerStates ts,
                   UpdateTimerState (timerMode v) (timeRemaining v) (isActive v) (completedPomodoros v) ts]"
    by auto
  let ?c2 = "perform now acts v"
  have c2: "\<not> isActive ?c2" "timerMode ?c2 = timerMode v" "interval ?c2 = None \<or> isActive v"
    using i0
    by (auto simp: acts_def e5 perform_def saveWhileActive_def saveOnActiveChange_def onTimerModeChange_def
          intervalEffect_def Let_def updateTimerState_fields split: option.splits)
  have tset: "list_ex isSetTimerStates acts" by (simp add: acts_def e5)
  from r commit_round[OF e tset, of 7 now] have r2: "commit 7 False now v True False (render now ?c2) = Inr c'"
    by (simp only: eight)
  have a: "timerMode (render now ?c2) = timerMode v" using c2(2) by (simp add: render_view)
  have b: "\<not> isActive (render now ?c2)" using c2(1) by (simp add: render_view)
  have d: "interval (render now ?c2) = None \<or> isActive v" using c2(3) by (simp add: render_interval)
  from commit_paused[OF r2 a b d] show ?thesis by simp
qed

text \<open>
  Claim C6 fails on the code. The stored pomodoro was running with 1193 seconds left at time
  1000000; the page is loaded ten seconds later. \<^verbatim>\<open>getSavedTimerState\<close> returns a running
  state with 1183 seconds, but when the component has mounted it is paused, no interval is
  registered, and its remaining time is 900: on mount the mode effect calls
  \<^verbatim>\<open>setIsActive(false)\<close> and the settings effect sets the long break's time.
\<close>

theorem reload_pauses_running_focus:
  "map_prod (\<lambda>s. (ts_timeRemaining s, ts_isActive s)) length
      (getSavedTimerState ''pomodoro'' defaultSettings 1010000 runningFocus)
     = ((1183, True), 0)
   \<and> map_sum id (\<lambda>c. (timerMode c, timeRemaining c, isActive c, interval c = None))
      (mount 1010000 defaultSettings runningFocus)
     = Inr (''pomodoro'', 900, False, True)"
  by code_simp

text \<open>
  The other half of the claim holds on the same item loaded 2000 seconds later: the completion
  is handled during the load, with one notification, the count at 1, the component paused and
  the short break selected as soon as the waiting \<^verbatim>\<open>setTimeout\<close> has run.
\<close>

lemma reload_after_overrun_completes:
  "map_sum id (\<lambda>c. (timerMode c, timeRemaining c, isActive c, completedPomodoros c, notified c, later c))
      (mount 3000000 defaultSettings runningFocus)
     = Inr (''pomodoro'', 900, False, 1, 1, [''shortBreak''])
   \<and> map_sum id (\<lambda>c. (timerMode c, timeRemaining c, isActive c, completedPomodoros c, notified c, later c))
      (exec (mount 3000000 defaultSettings runningFocus) [RunLater 3000001])
     = Inr (''shortBreak'', 300, False, 1, 1, [])"
  by code_simp


end
